theory Spec2Isabelle
  imports Complex_Main
begin

section \<open>The cube lifetime plot (\<^verbatim>\<open>doc/plot_linear_lifetime.py\<close>)\<close>

text \<open>
  The script evaluates one linear function, samples it, and hands the samples, tick
  positions and axis limits to the plotting library. The embedding follows the script
  top to bottom: the function \<^verbatim>\<open>cube_lifetime\<close>, the module-level
  arrays, and the values passed to each plotting call.

  Numbers. Python evaluates the script in binary64 floating point. The theory has the
  function at two levels. \<open>cube_lifetime\<close> computes over the real numbers: it is the
  line in exact arithmetic, and the properties of the figure are stated on it.
  \<open>cube_lifetime_py\<close> computes as Python does, on ints and on binary64 floats, with
  rounding to nearest, overflow to infinity and Python's exceptions: the properties
  that depend on how the arithmetic rounds or fails are stated on it.

  Errors. A raised exception is a value \<open>Inl e\<close> of the result type; a normal
  return is \<open>Inr v\<close>.
\<close>

subsection \<open>Errors\<close>

datatype py_error = ZeroDivisionError | ValueError | OverflowError | NameError

definition and_then :: "py_error + 'a \<Rightarrow> ('a \<Rightarrow> py_error + 'b) \<Rightarrow> py_error + 'b" where
  "and_then r f = (case r of Inl e \<Rightarrow> Inl e | Inr v \<Rightarrow> f v)"

subsection \<open>Constants (lines 5-6)\<close>

definition epochs_per_day :: real where
  "epochs_per_day = 16"

definition epoch_increments :: real where
  "epoch_increments = 80"

subsection \<open>The linear cube lifetime function (lines 9-13)\<close>

text \<open>
  \<^verbatim>\<open>
  def cube_lifetime(x, e1=0, e2=960, c1=10, c2=80):
      m = (e2 - e1) / (c2 - c1)
      b = e1 - m * c1
      return m * x + b
  \<close>
  In exact arithmetic: the division raises \<^verbatim>\<open>ZeroDivisionError\<close> when
  \<^verbatim>\<open>c2 - c1\<close> is zero, and nothing else can fail. The function as Python
  evaluates it, with rounding and with the exceptions of Python's numbers, is
  \<open>cube_lifetime_py\<close> below.
\<close>

definition cube_lifetime :: "real \<Rightarrow> real \<Rightarrow> real \<Rightarrow> real \<Rightarrow> real \<Rightarrow> py_error + real" where
  "cube_lifetime x e1 e2 c1 c2 =
     (if c2 - c1 = 0 then Inl ZeroDivisionError
      else let m = (e2 - e1) / (c2 - c1);
               b = e1 - m * c1
           in Inr (m * x + b))"

text \<open>
  The script also calls the function on whole arrays (\<^verbatim>\<open>cube_lifetime(x_values)\<close>):
  \<^verbatim>\<open>m\<close> and \<^verbatim>\<open>b\<close> are computed once, as above, and \<^verbatim>\<open>m * x + b\<close> is taken
  element by element.
\<close>

definition cube_lifetime_array :: "real list \<Rightarrow> real \<Rightarrow> real \<Rightarrow> real \<Rightarrow> real \<Rightarrow> py_error + real list" where
  "cube_lifetime_array xs e1 e2 c1 c2 =
     (if c2 - c1 = 0 then Inl ZeroDivisionError
      else let m = (e2 - e1) / (c2 - c1);
               b = e1 - m * c1
           in Inr (map (\<lambda>x. m * x + b) xs))"

subsection \<open>Library functions the script calls\<close>

text \<open>
  \<^verbatim>\<open>np.linspace(start, stop, num)\<close>: \<^verbatim>\<open>num\<close> evenly spaced samples, the first
  \<^verbatim>\<open>start\<close>, the last \<^verbatim>\<open>stop\<close> itself; the step is \<^verbatim>\<open>(stop - start) / (num - 1)\<close>.
\<close>

definition np_linspace :: "real \<Rightarrow> real \<Rightarrow> nat \<Rightarrow> real list" where
  "np_linspace start stop num =
     (if num = 0 then []
      else if num = 1 then [start]
      else map (\<lambda>i. start + real i * ((stop - start) / real (num - 1))) [0..<num - 1] @ [stop])"

text \<open>
  \<^verbatim>\<open>np.arange(start, stop, step)\<close>: the values \<^verbatim>\<open>start + i * step\<close> of the half-open
  interval from \<^verbatim>\<open>start\<close> to \<^verbatim>\<open>stop\<close>; there are \<^verbatim>\<open>ceil((stop - start) / step)\<close>
  of them, none when that is negative. A zero step is rejected.
\<close>

definition np_arange :: "real \<Rightarrow> real \<Rightarrow> real \<Rightarrow> py_error + real list" where
  "np_arange start stop step =
     (if step = 0 then Inl ValueError
      else Inr (map (\<lambda>i. start + real i * step) [0..<nat \<lceil>(stop - start) / step\<rceil>]))"

text \<open>
  The builtin \<^verbatim>\<open>max\<close> walks the sequence and keeps the largest element; it raises
  \<^verbatim>\<open>ValueError\<close> on an empty one.
\<close>

fun py_max :: "real list \<Rightarrow> py_error + real" where
  "py_max [] = Inl ValueError"
| "py_max (x # xs) = Inr (fold max xs x)"

text \<open>The builtin \<^verbatim>\<open>int\<close> on a float drops the fractional part: it truncates towards zero.\<close>

definition py_int :: "real \<Rightarrow> int" where
  "py_int y = (if 0 \<le> y then \<lfloor>y\<rfloor> else \<lceil>y\<rceil>)"

subsection \<open>The script\<close>

text \<open>
  The state of a run: the module-level arrays, and what the two axes have been given.
  An annotation is the integer its text shows together with the point it is attached
  to; the text itself is that integer in decimal (\<^verbatim>\<open>f"{int(y)}"\<close>), for the day
  labels followed by \<^verbatim>\<open>d\<close>. Colours, offsets, axis titles and the legend are left out.
\<close>

record plot_state =
  x_values :: "real list"
  challenge_points :: "int list"
  y_values :: "real list"
  y_values_points :: "real list"
  ax1_curve :: "(real \<times> real) list"
  ax1_annotations :: "(int \<times> int \<times> real) list"
  ax1_markers :: "(int \<times> real) list"
  y_ticks_epochs :: "real list"
  ax1_yticks :: "real list"
  y_ticks_days :: "real list"
  ax2_yticks :: "real list"
  ax2_yticklabels :: "int list"
  ax2_ylim :: "real \<times> real"
  additional_x_ticks :: "int list"
  ax1_xticks :: "int list"

text \<open>Before the first line nothing is set; a fresh axis shows the range from 0 to 1.\<close>

definition initial_state :: plot_state where
  "initial_state =
     \<lparr>x_values = [], challenge_points = [], y_values = [], y_values_points = [],
      ax1_curve = [], ax1_annotations = [], ax1_markers = [],
      y_ticks_epochs = [], ax1_yticks = [],
      y_ticks_days = [], ax2_yticks = [], ax2_yticklabels = [], ax2_ylim = (0, 1),
      additional_x_ticks = [], ax1_xticks = []\<rparr>"

text \<open>
  Lines 16-21:
  \<^verbatim>\<open>
  x_values = np.linspace(10, 80, 500)
  challenge_points = np.array([10, 15, 20, 25, 30, 35, 40, 45, 50])
  y_values = cube_lifetime(x_values)
  y_values_points = cube_lifetime(challenge_points)
  \<close>
\<close>

definition generate_values :: "plot_state \<Rightarrow> py_error + plot_state" where
  "generate_values s =
     (let xs = np_linspace 10 80 500;
          cps = [10, 15, 20, 25, 30, 35, 40, 45, 50]
      in and_then (cube_lifetime_array xs 0 960 10 80) (\<lambda>ys.
         and_then (cube_lifetime_array (map real_of_int cps) 0 960 10 80) (\<lambda>yps.
           Inr (s\<lparr>x_values := xs, challenge_points := cps,
                  y_values := ys, y_values_points := yps\<rparr>))))"

text \<open>Line 27: \<^verbatim>\<open>ax1.plot(x_values, y_values, ...)\<close>.\<close>

definition plot_curve :: "plot_state \<Rightarrow> plot_state" where
  "plot_curve s = s\<lparr>ax1_curve := zip (x_values s) (y_values s)\<rparr>"

text \<open>
  Lines 30-33, the loop over the challenge points:
  \<^verbatim>\<open>
  for i, (x, y) in enumerate(zip(challenge_points, y_values_points)):
      ax1.annotate(f"{int(y)}", (x, y), ...)
      ax1.plot(x, y, 'ro')
  \<close>
\<close>

fun annotate_loop :: "(int \<times> real) list \<Rightarrow> plot_state \<Rightarrow> plot_state" where
  "annotate_loop [] s = s"
| "annotate_loop ((x, y) # ps) s =
     annotate_loop ps
       (s\<lparr>ax1_annotations := ax1_annotations s @ [(py_int y, x, y)],
          ax1_markers := ax1_markers s @ [(x, y)]\<rparr>)"

definition annotate_points :: "plot_state \<Rightarrow> plot_state" where
  "annotate_points s = annotate_loop (zip (challenge_points s) (y_values_points s)) s"

text \<open>
  Lines 36-37:
  \<^verbatim>\<open>
  y_ticks_epochs = np.arange(0, max(y_values) + epoch_increments, epoch_increments)
  ax1.set_yticks(y_ticks_epochs)
  \<close>
\<close>

definition primary_ticks :: "plot_state \<Rightarrow> py_error + plot_state" where
  "primary_ticks s =
     and_then (py_max (y_values s)) (\<lambda>highest.
     and_then (np_arange 0 (highest + epoch_increments) epoch_increments) (\<lambda>ticks.
       Inr (s\<lparr>y_ticks_epochs := ticks, ax1_yticks := ticks\<rparr>)))"

text \<open>
  Lines 40-46:
  \<^verbatim>\<open>
  ax2 = ax1.twinx()
  y_ticks_days = y_ticks_epochs / epochs_per_day
  ax2.set_yticks(y_ticks_days)
  ax2.set_yticklabels([f"{int(tick)}d" for tick in y_ticks_days])
  ax2.set_ylim(ax1.get_ylim()[0] / epochs_per_day, ax1.get_ylim()[1] / epochs_per_day)
  \<close>
  What \<^verbatim>\<open>ax1.get_ylim()\<close> returns is chosen by the plotting library from what the
  primary axis has been given; the script only reads it. It is the parameter
  \<open>ylim1\<close>, a pair \<open>(bottom, top)\<close>.
\<close>

definition secondary_axis :: "real \<times> real \<Rightarrow> plot_state \<Rightarrow> plot_state" where
  "secondary_axis ylim1 s =
     (let days = map (\<lambda>t. t / epochs_per_day) (y_ticks_epochs s)
      in s\<lparr>y_ticks_days := days,
            ax2_yticks := days,
            ax2_yticklabels := map py_int days,
            ax2_ylim := (fst ylim1 / epochs_per_day, snd ylim1 / epochs_per_day)\<rparr>)"

text \<open>
  Lines 49-50:
  \<^verbatim>\<open>
  additional_x_ticks = [10, 15, 20, 25, 30, 35, 40, 45, 50, 55, 60, 65, 70, 75, 80]
  ax1.set_xticks(additional_x_ticks)
  \<close>
\<close>

definition x_axis_ticks :: "plot_state \<Rightarrow> plot_state" where
  "x_axis_ticks s =
     (let ticks = [10, 15, 20, 25, 30, 35, 40, 45, 50, 55, 60, 65, 70, 75, 80]
      in s\<lparr>additional_x_ticks := ticks, ax1_xticks := ticks\<rparr>)"

text \<open>The whole run, in the order of the file.\<close>

definition script :: "real \<times> real \<Rightarrow> py_error + plot_state" where
  "script ylim1 =
     and_then (generate_values initial_state) (\<lambda>s1.
     and_then (primary_ticks (annotate_points (plot_curve s1))) (\<lambda>s2.
       Inr (x_axis_ticks (secondary_axis ylim1 s2))))"

subsection \<open>Reading a value off an axis\<close>

text \<open>
  Both vertical axes are linear and share one plot area. An axis with limits
  \<open>(bottom, top)\<close> draws the value \<open>v\<close> at the fraction
  \<open>(v - bottom) / (top - bottom)\<close> of the height, and the value it shows at the
  fraction \<open>h\<close> is \<open>bottom + h * (top - bottom)\<close>.
\<close>

definition axis_height :: "real \<times> real \<Rightarrow> real \<Rightarrow> real" where
  "axis_height ylim v = (v - fst ylim) / (snd ylim - fst ylim)"

definition axis_value :: "real \<times> real \<Rightarrow> real \<Rightarrow> real" where
  "axis_value ylim h = fst ylim + h * (snd ylim - fst ylim)"

text \<open>A sequence whose every element is smaller than the next.\<close>

fun strictly_increasing :: "real list \<Rightarrow> bool" where
  "strictly_increasing [] = True"
| "strictly_increasing [x] = True"
| "strictly_increasing (x # y # zs) = (x < y \<and> strictly_increasing (y # zs))"

text \<open>
  The state a run ends in, written out; \<open>script_run\<close> below proves that the run
  reaches it. The secondary limits are the only part that depends on \<open>ylim1\<close>.
\<close>

definition final_state :: "real \<times> real \<Rightarrow> plot_state" where
  "final_state ylim1 =
     \<lparr>x_values = np_linspace 10 80 500,
      challenge_points = [10, 15, 20, 25, 30, 35, 40, 45, 50],
      y_values = map (\<lambda>x. 96 * x / 7 - 960 / 7) (np_linspace 10 80 500),
      y_values_points =
        [0, 480 / 7, 960 / 7, 1440 / 7, 1920 / 7, 2400 / 7, 2880 / 7, 480, 3840 / 7],
      ax1_curve =
        zip (np_linspace 10 80 500)
          (map (\<lambda>x. 96 * x / 7 - 960 / 7) (np_linspace 10 80 500)),
      ax1_annotations =
        [(0, 10, 0), (68, 15, 480 / 7), (137, 20, 960 / 7), (205, 25, 1440 / 7),
         (274, 30, 1920 / 7), (342, 35, 2400 / 7), (411, 40, 2880 / 7), (480, 45, 480),
         (548, 50, 3840 / 7)],
      ax1_markers =
        [(10, 0), (15, 480 / 7), (20, 960 / 7), (25, 1440 / 7), (30, 1920 / 7),
         (35, 2400 / 7), (40, 2880 / 7), (45, 480), (50, 3840 / 7)],
      y_ticks_epochs = [0, 80, 160, 240, 320, 400, 480, 560, 640, 720, 800, 880, 960],
      ax1_yticks = [0, 80, 160, 240, 320, 400, 480, 560, 640, 720, 800, 880, 960],
      y_ticks_days = [0, 5, 10, 15, 20, 25, 30, 35, 40, 45, 50, 55, 60],
      ax2_yticks = [0, 5, 10, 15, 20, 25, 30, 35, 40, 45, 50, 55, 60],
      ax2_yticklabels = [0, 5, 10, 15, 20, 25, 30, 35, 40, 45, 50, 55, 60],
      ax2_ylim = (fst ylim1 / 16, snd ylim1 / 16),
      additional_x_ticks = [10, 15, 20, 25, 30, 35, 40, 45, 50, 55, 60, 65, 70, 75, 80],
      ax1_xticks = [10, 15, 20, 25, 30, 35, 40, 45, 50, 55, 60, 65, 70, 75, 80]\<rparr>"

section \<open>The function on Python numbers\<close>

subsection \<open>Rounding to binary64\<close>

text \<open>
  A finite binary64 value is an integer multiple of a power of two: a significand of
  53 bits times \<open>2 ^ (e - 52)\<close>, where \<open>e\<close> is the exponent of the value's binade and
  is never below \<open>-1022\<close> (below that binade the values are subnormal and keep the
  spacing \<open>2 ^ -1074\<close>).

  \<open>rne\<close> rounds a real number to the nearest integer, a tie to the even one.
\<close>

definition rne :: "real \<Rightarrow> int" where
  "rne x =
     (let f = \<lfloor>x\<rfloor>; d = x - of_int f
      in if d < 1 / 2 then f
         else if 1 / 2 < d then f + 1
         else if even f then f else f + 1)"

text \<open>
  The exponent of the binade of a positive number, \<open>\<lfloor>log\<^sub>2 x\<rfloor>\<close>, computed by halving a
  number from 1 upwards and by doubling a number below 1.
\<close>

function ilog_up :: "real \<Rightarrow> int" where
  "ilog_up x = (if x < 2 then 0 else 1 + ilog_up (x / 2))"
  by pat_completeness auto
termination
proof (relation "measure (\<lambda>x. nat \<lceil>x\<rceil>)")
  show "wf (measure (\<lambda>x::real. nat \<lceil>x\<rceil>))" by simp
next
  fix x :: real
  assume "\<not> x < 2"
  then have "x / 2 + 1 \<le> x" by simp
  moreover have "real_of_int \<lceil>x / 2\<rceil> < x / 2 + 1" by linarith
  ultimately have "real_of_int \<lceil>x / 2\<rceil> < real_of_int \<lceil>x\<rceil>" by linarith
  then have "\<lceil>x / 2\<rceil> < \<lceil>x\<rceil>" by simp
  moreover have "0 < \<lceil>x\<rceil>" using \<open>\<not> x < 2\<close> by linarith
  ultimately show "(x / 2, x) \<in> measure (\<lambda>x. nat \<lceil>x\<rceil>)" by simp
qed

function ilog_down :: "real \<Rightarrow> int" where
  "ilog_down x = (if x \<le> 0 \<or> 1 \<le> x then 0 else ilog_down (2 * x) - 1)"
  by pat_completeness auto
termination
proof (relation "measure (\<lambda>x. nat \<lceil>1 / x\<rceil>)")
  show "wf (measure (\<lambda>x::real. nat \<lceil>1 / x\<rceil>))" by simp
next
  fix x :: real
  assume "\<not> (x \<le> 0 \<or> 1 \<le> x)"
  then have x: "0 < x" "x < 1" by simp_all
  define y where "y = 1 / x"
  have y: "1 < y" using x by (simp add: y_def)
  have half: "1 / (2 * x) = y / 2" by (simp add: y_def)
  have "\<lceil>y / 2\<rceil> < \<lceil>y\<rceil>"
  proof (cases "2 \<le> y")
    case True
    then have "y / 2 + 1 \<le> y" by simp
    moreover have "real_of_int \<lceil>y / 2\<rceil> < y / 2 + 1" by linarith
    ultimately have "real_of_int \<lceil>y / 2\<rceil> < real_of_int \<lceil>y\<rceil>" by linarith
    then show ?thesis by simp
  next
    case False
    then have "y / 2 \<le> 1" by simp
    then have "\<lceil>y / 2\<rceil> \<le> 1" by (simp only: ceiling_le_iff of_int_1)
    moreover have "2 \<le> \<lceil>y\<rceil>" using y by linarith
    ultimately show ?thesis by linarith
  qed
  moreover have "0 < \<lceil>y\<rceil>" using y by linarith
  ultimately have "nat \<lceil>1 / (2 * x)\<rceil> < nat \<lceil>1 / x\<rceil>"
    unfolding half unfolding y_def by linarith
  then show "(2 * x, x) \<in> measure (\<lambda>x. nat \<lceil>1 / x\<rceil>)"
    by (simp only: in_measure)
qed

declare ilog_up.simps [simp del]

declare ilog_down.simps [simp del]

definition expo :: "real \<Rightarrow> int" where
  "expo x = max (- 1022) (if 1 \<le> \<bar>x\<bar> then ilog_up \<bar>x\<bar> else ilog_down \<bar>x\<bar>)"

text \<open>The spacing of the binary64 values around \<open>x\<close>.\<close>

definition ulp :: "real \<Rightarrow> real" where
  "ulp x = 2 powi (expo x - 52)"

text \<open>
  Rounding to nearest, ties to even, with no bound on the exponent: the multiple of
  \<open>ulp x\<close> nearest to \<open>x\<close>.
\<close>

definition fl :: "real \<Rightarrow> real" where
  "fl x = of_int (rne (x / ulp x)) * ulp x"

subsection \<open>Binary64 values and their operations\<close>

text \<open>
  A float is a finite value, an infinity or NaN. \<open>Finite r\<close> stands for the double of
  value \<open>r\<close>; the two zeros are the one value \<open>Finite 0\<close> (they compare equal, and a
  division by either raises in Python). NaN is one value: HOL's equality holds between
  NaN and itself, Python's comparisons are \<open>f64_le\<close> and \<open>f64_lt\<close>, false at NaN.
\<close>

datatype f64 = Finite real | PInf | NInf | NaN

text \<open>The largest finite double, \<open>(2 - 2 ^ -52) * 2 ^ 1023\<close>.\<close>

definition max_f64 :: real where
  "max_f64 = (2 ^ 53 - 1) * 2 ^ 971"

text \<open>
  The result of an operation is its exact result rounded; a rounded result beyond the
  largest finite double is an infinity.
\<close>

definition round_f64 :: "real \<Rightarrow> f64" where
  "round_f64 r =
     (let v = fl r
      in if max_f64 < v then PInf else if v < - max_f64 then NInf else Finite v)"

fun f64_neg :: "f64 \<Rightarrow> f64" where
  "f64_neg (Finite a) = Finite (- a)"
| "f64_neg PInf = NInf"
| "f64_neg NInf = PInf"
| "f64_neg NaN = NaN"

fun f64_add :: "f64 \<Rightarrow> f64 \<Rightarrow> f64" where
  "f64_add (Finite a) (Finite b) = round_f64 (a + b)"
| "f64_add NaN _ = NaN"
| "f64_add _ NaN = NaN"
| "f64_add PInf NInf = NaN"
| "f64_add NInf PInf = NaN"
| "f64_add PInf _ = PInf"
| "f64_add _ PInf = PInf"
| "f64_add NInf _ = NInf"
| "f64_add _ NInf = NInf"

definition f64_sub :: "f64 \<Rightarrow> f64 \<Rightarrow> f64" where
  "f64_sub a b = f64_add a (f64_neg b)"

text \<open>An infinity times or over a finite value: NaN at zero, else an infinity of the sign.\<close>

definition inf_of_sign :: "real \<Rightarrow> f64" where
  "inf_of_sign s = (if s = 0 then NaN else if 0 < s then PInf else NInf)"

fun f64_mul :: "f64 \<Rightarrow> f64 \<Rightarrow> f64" where
  "f64_mul (Finite a) (Finite b) = round_f64 (a * b)"
| "f64_mul NaN _ = NaN"
| "f64_mul _ NaN = NaN"
| "f64_mul PInf (Finite b) = inf_of_sign b"
| "f64_mul NInf (Finite b) = inf_of_sign (- b)"
| "f64_mul (Finite a) PInf = inf_of_sign a"
| "f64_mul (Finite a) NInf = inf_of_sign (- a)"
| "f64_mul PInf PInf = PInf"
| "f64_mul PInf NInf = NInf"
| "f64_mul NInf PInf = NInf"
| "f64_mul NInf NInf = PInf"

text \<open>Division by a value that is not zero (Python raises before dividing by zero).\<close>

fun f64_div :: "f64 \<Rightarrow> f64 \<Rightarrow> f64" where
  "f64_div (Finite a) (Finite b) = round_f64 (a / b)"
| "f64_div NaN _ = NaN"
| "f64_div _ NaN = NaN"
| "f64_div (Finite a) _ = Finite 0"
| "f64_div PInf (Finite b) = inf_of_sign b"
| "f64_div NInf (Finite b) = inf_of_sign (- b)"
| "f64_div _ _ = NaN"



subsection \<open>Python's int and float\<close>

text \<open>
  The arguments of \<^verbatim>\<open>cube_lifetime\<close> are Python numbers: ints, which are unbounded,
  and floats. (Calibration parameters of NumPy scalar types are not covered: with
  them NumPy returns \<^verbatim>\<open>inf\<close> or \<^verbatim>\<open>nan\<close> and a warning where Python raises.)
\<close>

datatype py_num = PyInt int | PyFloat f64

text \<open>
  An int meets a float: the int is converted to the nearest double, and the conversion
  raises \<^verbatim>\<open>OverflowError\<close> when that is beyond the largest finite double.
\<close>

definition to_float :: "py_num \<Rightarrow> py_error + f64" where
  "to_float x =
     (case x of
        PyFloat f \<Rightarrow> Inr f
      | PyInt n \<Rightarrow>
          (case round_f64 (of_int n) of
             Finite v \<Rightarrow> Inr (Finite v)
           | _ \<Rightarrow> Inl OverflowError))"

text \<open>
  \<^verbatim>\<open>-\<close>, \<^verbatim>\<open>+\<close> and \<^verbatim>\<open>*\<close> are exact on two ints and binary64 operations
  otherwise; float operations overflow to an infinity and do not raise.
\<close>

fun py_sub :: "py_num \<Rightarrow> py_num \<Rightarrow> py_error + py_num" where
  "py_sub (PyInt i) (PyInt j) = Inr (PyInt (i - j))"
| "py_sub a b =
     and_then (to_float a) (\<lambda>x. and_then (to_float b) (\<lambda>y. Inr (PyFloat (f64_sub x y))))"

fun py_add :: "py_num \<Rightarrow> py_num \<Rightarrow> py_error + py_num" where
  "py_add (PyInt i) (PyInt j) = Inr (PyInt (i + j))"
| "py_add a b =
     and_then (to_float a) (\<lambda>x. and_then (to_float b) (\<lambda>y. Inr (PyFloat (f64_add x y))))"

fun py_mul :: "py_num \<Rightarrow> py_num \<Rightarrow> py_error + py_num" where
  "py_mul (PyInt i) (PyInt j) = Inr (PyInt (i * j))"
| "py_mul a b =
     and_then (to_float a) (\<lambda>x. and_then (to_float b) (\<lambda>y. Inr (PyFloat (f64_mul x y))))"

text \<open>
  \<^verbatim>\<open>/\<close> is true division. On two ints it is the exact quotient rounded to the
  nearest double, \<^verbatim>\<open>ZeroDivisionError\<close> for a zero divisor and
  \<^verbatim>\<open>OverflowError\<close> for a quotient beyond the doubles. Otherwise both operands
  become floats and a zero divisor raises \<^verbatim>\<open>ZeroDivisionError\<close>.
\<close>

fun py_truediv :: "py_num \<Rightarrow> py_num \<Rightarrow> py_error + py_num" where
  "py_truediv (PyInt i) (PyInt j) =
     (if j = 0 then Inl ZeroDivisionError
      else case round_f64 (of_int i / of_int j) of
             Finite v \<Rightarrow> Inr (PyFloat (Finite v))
           | _ \<Rightarrow> Inl OverflowError)"
| "py_truediv a b =
     and_then (to_float a) (\<lambda>x. and_then (to_float b) (\<lambda>y.
       if y = Finite 0 then Inl ZeroDivisionError else Inr (PyFloat (f64_div x y))))"

text \<open>
  Lines 9-13 on Python numbers, operation by operation and in Python's order of
  evaluation:
  \<^verbatim>\<open>
  m = (e2 - e1) / (c2 - c1)
  b = e1 - m * c1
  return m * x + b
  \<close>
\<close>

definition cube_lifetime_py ::
    "py_num \<Rightarrow> py_num \<Rightarrow> py_num \<Rightarrow> py_num \<Rightarrow> py_num \<Rightarrow> py_error + py_num" where
  "cube_lifetime_py x e1 e2 c1 c2 =
     and_then (py_sub e2 e1) (\<lambda>de.
     and_then (py_sub c2 c1) (\<lambda>dc.
     and_then (py_truediv de dc) (\<lambda>m.
     and_then (py_mul m c1) (\<lambda>mc.
     and_then (py_sub e1 mc) (\<lambda>b.
     and_then (py_mul m x) (\<lambda>mx.
       py_add mx b))))))"

text \<open>
  What the default call computes before it looks at \<^verbatim>\<open>x\<close>: the slope \<^verbatim>\<open>m\<close> is
  the double nearest to \<open>960 / 70\<close> (13.714285714285714), the product \<^verbatim>\<open>m * c1\<close>
  is the double 137.14285714285714, and the intercept \<^verbatim>\<open>b\<close> is its negation.
\<close>

definition default_m :: real where
  "default_m = 7720456504063707 / 2 ^ 49"

definition default_mc :: real where
  "default_mc = 4825285315039817 / 2 ^ 45"

text \<open>
  The smallest positive int that does not convert to a float: halfway between the
  largest finite double and \<open>2 ^ 1024\<close>.
\<close>

definition int_overflow :: int where
  "int_overflow = 2 ^ 1024 - 2 ^ 970"

subsection \<open>The body as statements\<close>

text \<open>
  To state that the call has no effect beyond its result, the body is also given as
  the statements it consists of, run on a frame of global and local names. An
  assignment in a function body binds a local name; \<open>AssignGlobal\<close> is the assignment
  to a name declared \<^verbatim>\<open>global\<close>, which the body does not use. A name is looked up
  among the locals, then among the globals.
\<close>

datatype binop = Sub | Div | Mul | Add

datatype expr = Name string | BinOp binop expr expr

datatype stmt = Assign string expr | AssignGlobal string expr | Return expr

record frame =
  globals :: "string \<Rightarrow> py_num option"
  locals :: "string \<Rightarrow> py_num option"

fun apply_binop :: "binop \<Rightarrow> py_num \<Rightarrow> py_num \<Rightarrow> py_error + py_num" where
  "apply_binop Sub a b = py_sub a b"
| "apply_binop Div a b = py_truediv a b"
| "apply_binop Mul a b = py_mul a b"
| "apply_binop Add a b = py_add a b"

fun eval_expr :: "frame \<Rightarrow> expr \<Rightarrow> py_error + py_num" where
  "eval_expr fr (Name n) =
     (case locals fr n of
        Some v \<Rightarrow> Inr v
      | None \<Rightarrow> (case globals fr n of Some v \<Rightarrow> Inr v | None \<Rightarrow> Inl NameError))"
| "eval_expr fr (BinOp bop l r) =
     and_then (eval_expr fr l) (\<lambda>a. and_then (eval_expr fr r) (\<lambda>b. apply_binop bop a b))"

text \<open>
  Running statements gives the returned value (\<open>None\<close> when the statements end
  without \<^verbatim>\<open>return\<close>) or the exception, and the frame they leave.
\<close>

fun exec :: "stmt list \<Rightarrow> frame \<Rightarrow> (py_error + py_num option) \<times> frame" where
  "exec [] fr = (Inr None, fr)"
| "exec (Assign n e # ss) fr =
     (case eval_expr fr e of
        Inl err \<Rightarrow> (Inl err, fr)
      | Inr v \<Rightarrow> exec ss (fr\<lparr>locals := (locals fr)(n \<mapsto> v)\<rparr>))"
| "exec (AssignGlobal n e # ss) fr =
     (case eval_expr fr e of
        Inl err \<Rightarrow> (Inl err, fr)
      | Inr v \<Rightarrow> exec ss (fr\<lparr>globals := (globals fr)(n \<mapsto> v)\<rparr>))"
| "exec (Return e # ss) fr =
     (case eval_expr fr e of
        Inl err \<Rightarrow> (Inl err, fr)
      | Inr v \<Rightarrow> (Inr (Some v), fr))"

definition cube_lifetime_body :: "stmt list" where
  "cube_lifetime_body =
     [Assign ''m'' (BinOp Div (BinOp Sub (Name ''e2'') (Name ''e1''))
                             (BinOp Sub (Name ''c2'') (Name ''c1''))),
      Assign ''b'' (BinOp Sub (Name ''e1'') (BinOp Mul (Name ''m'') (Name ''c1''))),
      Return (BinOp Add (BinOp Mul (Name ''m'') (Name ''x'')) (Name ''b''))]"

text \<open>The call: the parameters are the locals of a new frame over the globals \<open>g\<close>.\<close>

definition cube_lifetime_call ::
    "(string \<Rightarrow> py_num option) \<Rightarrow> py_num \<Rightarrow> py_num \<Rightarrow> py_num \<Rightarrow> py_num \<Rightarrow> py_num
      \<Rightarrow> (py_error + py_num option) \<times> frame" where
  "cube_lifetime_call g x e1 e2 c1 c2 =
     exec cube_lifetime_body
       \<lparr>globals = g,
        locals = [''x'' \<mapsto> x, ''e1'' \<mapsto> e1, ''e2'' \<mapsto> e2, ''c1'' \<mapsto> c1, ''c2'' \<mapsto> c2]\<rparr>"

text \<open>The statements that assign to a global name.\<close>

fun writes_global :: "stmt \<Rightarrow> bool" where
  "writes_global (AssignGlobal n e) = True"
| "writes_global _ = False"

section \<open>Properties of the lifetime model\<close>

text \<open>
  The script calls \<^verbatim>\<open>cube_lifetime\<close> with one argument only, so the calibration
  parameters are the defaults of the signature: \<open>e1 = 0\<close>, \<open>e2 = 960\<close>, \<open>c1 = 10\<close>,
  \<open>c2 = 80\<close>.
\<close>


text \<open>
  C2. At each of the two default calibration inputs the model returns exactly the
  calibration output: \<open>model(10) = 0\<close> and \<open>model(80) = 960\<close>.
\<close>

theorem cube_lifetime_default_calibration:
  "cube_lifetime 10 0 960 10 80 = Inr 0 \<and> cube_lifetime 80 0 960 10 80 = Inr 960"
  by (simp add: cube_lifetime_def)

section \<open>The run of the script\<close>

subsection \<open>Results and library functions\<close>

lemma and_then_Inr [simp]: "and_then (Inr v) f = f v"
  by (simp add: and_then_def)

lemma and_then_Inl [simp]: "and_then (Inl e) f = Inl e"
  by (simp add: and_then_def)

lemma cube_lifetime_array_default:
  "cube_lifetime_array xs 0 960 10 80 = Inr (map (\<lambda>x. 96 * x / 7 - 960 / 7) xs)"
  by (simp add: cube_lifetime_array_def)

text \<open>The array call is the scalar call at every element.\<close>

lemma cube_lifetime_array_elementwise:
  assumes "cube_lifetime_array xs e1 e2 c1 c2 = Inr ys"
  shows "map Inr ys = map (\<lambda>x. cube_lifetime x e1 e2 c1 c2) xs"
  using assms
  by (auto simp: cube_lifetime_array_def cube_lifetime_def Let_def split: if_splits)

lemma np_linspace_length: "length (np_linspace start stop num) = num"
  by (simp add: np_linspace_def)

lemma np_linspace_nonempty: "0 < num \<Longrightarrow> np_linspace start stop num \<noteq> []"
  by (simp add: np_linspace_def)

lemma np_linspace_last: "1 < num \<Longrightarrow> stop \<in> set (np_linspace start stop num)"
  by (simp add: np_linspace_def)

lemma np_linspace_bounds:
  assumes "start \<le> stop" and "x \<in> set (np_linspace start stop num)"
  shows "start \<le> x \<and> x \<le> stop"
proof (cases "num \<le> 1")
  case True
  with assms show ?thesis
    by (auto simp: np_linspace_def split: if_splits)
next
  case False
  then have n: "1 < num" by simp
  from assms(2) n consider "x = stop"
    | i where "i < num - 1" and "x = start + real i * ((stop - start) / real (num - 1))"
    by (auto simp: np_linspace_def)
  then show ?thesis
  proof cases
    case 1
    with assms(1) show ?thesis by simp
  next
    case 2
    have d: "0 < real (num - 1)" using n by simp
    have "real i / real (num - 1) \<le> 1" using 2(1) d by simp
    then have "real i / real (num - 1) * (stop - start) \<le> 1 * (stop - start)"
      using assms(1) by (intro mult_right_mono) simp_all
    moreover have "0 \<le> real i * ((stop - start) / real (num - 1))"
      using assms(1) by simp
    ultimately show ?thesis using 2(2) by simp
  qed
qed

lemma py_max_Max:
  assumes "xs \<noteq> []"
  shows "py_max xs = Inr (Max (set xs))"
proof (cases xs)
  case Nil
  with assms show ?thesis by simp
next
  case (Cons y ys)
  have "Max (set (y # ys)) = fold max ys y" by (rule Max.set_eq_fold)
  with Cons show ?thesis by simp
qed

lemma py_int_nonneg: "0 \<le> y \<Longrightarrow> py_int y = \<lfloor>y\<rfloor>"
  by (simp add: py_int_def)

subsection \<open>The annotation loop\<close>

lemma annotate_loop_annotations:
  "ax1_annotations (annotate_loop ps s) =
     ax1_annotations s @ map (\<lambda>(x, y). (py_int y, x, y)) ps"
  by (induction ps s rule: annotate_loop.induct) simp_all

lemma annotate_loop_markers: "ax1_markers (annotate_loop ps s) = ax1_markers s @ ps"
  by (induction ps s rule: annotate_loop.induct) simp_all

lemma annotate_loop_frame:
  "x_values (annotate_loop ps s) = x_values s"
  "challenge_points (annotate_loop ps s) = challenge_points s"
  "y_values (annotate_loop ps s) = y_values s"
  "y_values_points (annotate_loop ps s) = y_values_points s"
  "ax1_curve (annotate_loop ps s) = ax1_curve s"
  "y_ticks_epochs (annotate_loop ps s) = y_ticks_epochs s"
  "ax1_yticks (annotate_loop ps s) = ax1_yticks s"
  "y_ticks_days (annotate_loop ps s) = y_ticks_days s"
  "ax2_yticks (annotate_loop ps s) = ax2_yticks s"
  "ax2_yticklabels (annotate_loop ps s) = ax2_yticklabels s"
  "ax2_ylim (annotate_loop ps s) = ax2_ylim s"
  "additional_x_ticks (annotate_loop ps s) = additional_x_ticks s"
  "ax1_xticks (annotate_loop ps s) = ax1_xticks s"
  by (induction ps s rule: annotate_loop.induct) simp_all

subsection \<open>The steps of the run\<close>

lemma generate_values_run:
  "generate_values s =
     Inr (s\<lparr>x_values := np_linspace 10 80 500,
            challenge_points := [10, 15, 20, 25, 30, 35, 40, 45, 50],
            y_values := map (\<lambda>x. 96 * x / 7 - 960 / 7) (np_linspace 10 80 500),
            y_values_points :=
              [0, 480 / 7, 960 / 7, 1440 / 7, 1920 / 7, 2400 / 7, 2880 / 7, 480, 3840 / 7]\<rparr>)"
  by (simp add: generate_values_def cube_lifetime_array_default Let_def)

text \<open>
  The dense curve never exceeds 960 and reaches it at its last sample, the input 80.
\<close>

lemma y_values_max:
  "Max (set (map (\<lambda>x. 96 * x / 7 - 960 / 7) (np_linspace 10 80 500))) = (960::real)"
proof (rule Max_eqI)
  show "finite (set (map (\<lambda>x. 96 * x / 7 - 960 / 7) (np_linspace 10 80 500)))"
    by simp
next
  fix y :: real
  assume "y \<in> set (map (\<lambda>x. 96 * x / 7 - 960 / 7) (np_linspace 10 80 500))"
  then obtain x where x: "x \<in> set (np_linspace 10 80 500)"
    and y: "y = 96 * x / 7 - 960 / 7"
    by auto
  from np_linspace_bounds [OF _ x] have "x \<le> 80" by simp
  with y show "y \<le> 960" by simp
next
  have "(80::real) \<in> set (np_linspace 10 80 500)"
    by (rule np_linspace_last) simp
  then have "96 * 80 / 7 - 960 / 7
      \<in> (\<lambda>x::real. 96 * x / 7 - 960 / 7) ` set (np_linspace 10 80 500)"
    by (rule imageI)
  then show "(960::real) \<in> set (map (\<lambda>x. 96 * x / 7 - 960 / 7) (np_linspace 10 80 500))"
    by simp
qed

lemma py_max_y_values:
  "py_max (map (\<lambda>x. 96 * x / 7 - 960 / 7) (np_linspace 10 80 500)) = Inr 960"
proof -
  have "np_linspace 10 80 500 \<noteq> []"
    by (rule np_linspace_nonempty) simp
  then have "map (\<lambda>x::real. 96 * x / 7 - 960 / 7) (np_linspace 10 80 500) \<noteq> []"
    by simp
  from py_max_Max [OF this] y_values_max show ?thesis by simp
qed

lemma np_arange_ticks:
  "np_arange 0 (960 + epoch_increments) epoch_increments =
     Inr [0, 80, 160, 240, 320, 400, 480, 560, 640, 720, 800, 880, 960]"
  by (simp add: np_arange_def epoch_increments_def upt_rec)

lemma script_run: "script ylim1 = Inr (final_state ylim1)"
  by (simp add: script_def generate_values_run initial_state_def plot_curve_def
      annotate_points_def annotate_loop_frame annotate_loop_annotations annotate_loop_markers
      primary_ticks_def py_max_y_values np_arange_ticks secondary_axis_def x_axis_ticks_def
      Let_def final_state_def epochs_per_day_def py_int_def)


text \<open>
  The ticks that \<^verbatim>\<open>np.arange(start, hi + step, step)\<close> produces start at
  \<^verbatim>\<open>start\<close>, are \<^verbatim>\<open>step\<close> apart, and the last one is at least \<^verbatim>\<open>hi\<close>.
\<close>

lemma np_arange_covers:
  assumes step: "0 < step" and hi: "start \<le> hi"
    and run: "np_arange start (hi + step) step = Inr ticks"
  shows "ticks \<noteq> [] \<and> hd ticks = start \<and> hi \<le> last ticks
       \<and> ticks = map (\<lambda>i. start + real i * step) [0..<length ticks]"
proof -
  define n where "n = nat \<lceil>(hi + step - start) / step\<rceil>"
  from run step have ticks: "ticks = map (\<lambda>i. start + real i * step) [0..<n]"
    by (simp add: np_arange_def n_def)
  have q: "(hi + step - start) / step = (hi - start) / step + 1"
    using step by (simp add: field_simps)
  have "0 \<le> (hi - start) / step" using step hi by simp
  then have "1 \<le> \<lceil>(hi + step - start) / step\<rceil>" unfolding q by linarith
  then have n_pos: "0 < n" by (simp add: n_def)
  then have ne: "ticks \<noteq> []" by (simp add: ticks)
  have len: "length ticks = n" by (simp add: ticks)
  have hd: "hd ticks = start"
    using n_pos by (simp add: ticks hd_map upt_conv_Cons)
  have "last ticks = start + real (n - 1) * step"
    using n_pos by (simp add: ticks last_map)
  moreover have "(hi + step - start) / step \<le> real n"
  proof -
    have "(hi + step - start) / step \<le> real_of_int \<lceil>(hi + step - start) / step\<rceil>" by linarith
    also have "\<dots> \<le> real n" by (simp add: n_def) 
    finally show ?thesis .
  qed
  then have "hi + step - start \<le> real n * step" using step by (simp add: field_simps)
  moreover have "real (n - 1) = real n - 1" using n_pos by (simp add: of_nat_diff)
  ultimately have "hi \<le> last ticks" by (simp add: algebra_simps)
  with ne hd len ticks show ?thesis by simp
qed

text \<open>
  So the primary ticks reach the largest sample whatever the samples are, provided
  there is one and the largest is not negative.
\<close>

lemma primary_ticks_cover_data:
  assumes ne: "y_values s \<noteq> []" and nonneg: "0 \<le> Max (set (y_values s))"
  shows "\<exists>s'. primary_ticks s = Inr s'
           \<and> y_ticks_epochs s' \<noteq> [] \<and> hd (y_ticks_epochs s') = 0
           \<and> Max (set (y_values s)) \<le> last (y_ticks_epochs s')
           \<and> y_ticks_epochs s' = map (\<lambda>i. 0 + real i * 80) [0..<length (y_ticks_epochs s')]"
proof -
  let ?hi = "Max (set (y_values s))"
  obtain ticks where ticks: "np_arange 0 (?hi + epoch_increments) epoch_increments = Inr ticks"
    by (simp add: np_arange_def epoch_increments_def)
  have "0 < epoch_increments" by (simp add: epoch_increments_def)
  from np_arange_covers [OF this nonneg ticks]
  have "ticks \<noteq> [] \<and> hd ticks = 0 \<and> ?hi \<le> last ticks
      \<and> ticks = map (\<lambda>i. 0 + real i * 80) [0..<length ticks]"
    by (simp add: epoch_increments_def)
  moreover have "primary_ticks s = Inr (s\<lparr>y_ticks_epochs := ticks, ax1_yticks := ticks\<rparr>)"
    by (simp add: primary_ticks_def py_max_Max [OF ne] ticks)
  ultimately show ?thesis by simp
qed

subsection \<open>The secondary axis\<close>

text \<open>Lines 40-46 set the secondary axis and leave the data and the primary axis alone.\<close>

lemma secondary_axis_frame:
  "x_values (secondary_axis ylim1 s) = x_values s"
  "challenge_points (secondary_axis ylim1 s) = challenge_points s"
  "y_values (secondary_axis ylim1 s) = y_values s"
  "y_values_points (secondary_axis ylim1 s) = y_values_points s"
  "ax1_curve (secondary_axis ylim1 s) = ax1_curve s"
  "ax1_annotations (secondary_axis ylim1 s) = ax1_annotations s"
  "ax1_markers (secondary_axis ylim1 s) = ax1_markers s"
  "y_ticks_epochs (secondary_axis ylim1 s) = y_ticks_epochs s"
  "ax1_yticks (secondary_axis ylim1 s) = ax1_yticks s"
  by (simp_all add: secondary_axis_def Let_def)

text \<open>
  With the secondary limits the primary limits divided by 16, a value drawn at some
  height on the primary axis reads as a sixteenth of it on the secondary axis, and a
  secondary value \<open>t / 16\<close> is drawn at the height of the primary value \<open>t\<close>.
\<close>

lemma axis_reading_scaled:
  assumes "fst ylim1 \<noteq> snd ylim1"
  shows "axis_value (fst ylim1 / 16, snd ylim1 / 16) (axis_height ylim1 y) = y / 16"
proof -
  from assms have nz: "snd ylim1 - fst ylim1 \<noteq> 0" by simp
  have "axis_value (fst ylim1 / 16, snd ylim1 / 16) (axis_height ylim1 y)
      = fst ylim1 / 16 + ((y - fst ylim1) / (snd ylim1 - fst ylim1)) * ((snd ylim1 - fst ylim1) / 16)"
    by (simp add: axis_value_def axis_height_def diff_divide_distrib)
  also have "\<dots> = fst ylim1 / 16 + (y - fst ylim1) / 16"
    using nz by simp
  also have "\<dots> = y / 16" by (simp add: diff_divide_distrib)
  finally show ?thesis .
qed

lemma axis_height_scaled:
  "axis_height (fst ylim1 / 16, snd ylim1 / 16) (t / 16) = axis_height ylim1 t"
proof -
  have cancel: "(a / 16) / (b / 16) = a / b" for a b :: real
    by simp
  have num: "t / 16 - fst ylim1 / 16 = (t - fst ylim1) / 16"
    and den: "snd ylim1 / 16 - fst ylim1 / 16 = (snd ylim1 - fst ylim1) / 16"
    by (simp_all only: diff_divide_distrib)
  have "axis_height (fst ylim1 / 16, snd ylim1 / 16) (t / 16)
      = ((t - fst ylim1) / 16) / ((snd ylim1 - fst ylim1) / 16)"
    by (simp only: axis_height_def fst_conv snd_conv num den)
  also have "\<dots> = (t - fst ylim1) / (snd ylim1 - fst ylim1)"
    by (rule cancel)
  finally show ?thesis by (simp only: axis_height_def)
qed

lemma final_state_curve:
  "map Inr (y_values (final_state ylim1)) =
     map (\<lambda>x. cube_lifetime x 0 960 10 80) (x_values (final_state ylim1))"
  by (simp add: final_state_def cube_lifetime_def)

section \<open>Properties of the rendered figure\<close>

text \<open>
  C3, as the specification states it, fails: the annotation text is \<^verbatim>\<open>int(y)\<close>,
  which truncates, so it is not the nearest integer wherever the fractional part of
  the output is a half or more. At the challenge input 15 the output is
  \<open>480 / 7\<close>, about 68.57: the annotation shows 68 and the nearest integer is 69.
  The same happens at 25, 35 and 50.
\<close>

theorem annotation_not_nearest_integer:
  "map_sum id (map fst \<circ> ax1_annotations) (script (- 48, 1008)) =
     Inr [0, 68, 137, 205, 274, 342, 411, 480, 548]
   \<and> map_sum id (map round \<circ> y_values_points) (script (- 48, 1008)) =
     Inr [0, 69, 137, 206, 274, 343, 411, 480, 549]
   \<and> cube_lifetime 15 0 960 10 80 = Inr (480 / 7)
   \<and> py_int (480 / 7) = 68
   \<and> round (480 / 7 :: real) = 69"
  by (simp add: script_run final_state_def round_def cube_lifetime_def py_int_def)

text \<open>
  C3, amended. For each of the nine challenge inputs \<open>10, 15, ..., 50\<close> the
  annotation placed at the point \<open>(x, model(x))\<close> shows \<open>model(x)\<close> truncated towards
  zero, which for these outputs (none is negative) is its floor: \<open>0, 68, 137, 205,
  274, 342, 411, 480, 548\<close>. The sequence of model outputs over these inputs is
  strictly increasing.
\<close>

theorem annotations_truncate:
  "\<exists>s. script ylim1 = Inr s
     \<and> challenge_points s = [10, 15, 20, 25, 30, 35, 40, 45, 50]
     \<and> map Inr (y_values_points s) =
         map (\<lambda>x. cube_lifetime (real_of_int x) 0 960 10 80) (challenge_points s)
     \<and> ax1_annotations s =
         map (\<lambda>(x, y). (py_int y, x, y)) (zip (challenge_points s) (y_values_points s))
     \<and> map fst (ax1_annotations s) = map floor (y_values_points s)
     \<and> map fst (ax1_annotations s) = [0, 68, 137, 205, 274, 342, 411, 480, 548]
     \<and> strictly_increasing (y_values_points s)"
proof -
  let ?s = "final_state ylim1"
  have run: "script ylim1 = Inr ?s" by (rule script_run)
  have cps: "challenge_points ?s = [10, 15, 20, 25, 30, 35, 40, 45, 50]"
    by (simp add: final_state_def)
  have ys: "map Inr (y_values_points ?s) =
      map (\<lambda>x. cube_lifetime (real_of_int x) 0 960 10 80) (challenge_points ?s)"
    by (simp add: final_state_def cube_lifetime_def)
  have anns: "ax1_annotations ?s =
      map (\<lambda>(x, y). (py_int y, x, y)) (zip (challenge_points ?s) (y_values_points ?s))"
    by (simp add: final_state_def py_int_def)
  have labels: "map fst (ax1_annotations ?s) = [0, 68, 137, 205, 274, 342, 411, 480, 548]"
    by (simp add: final_state_def)
  have floors: "map fst (ax1_annotations ?s) = map floor (y_values_points ?s)"
    by (simp add: final_state_def)
  have incr: "strictly_increasing (y_values_points ?s)"
    by (simp add: final_state_def)
  show ?thesis
    by (rule exI [of _ ?s]) (intro conjI run cps ys anns floors labels incr)
qed

text \<open>
  C4. For every input \<open>x\<close>, the days value that the secondary axis shows at the
  height of the model output \<open>y = model(x)\<close> is \<open>y / 16\<close>; 16 is the fixed ratio
  \<^verbatim>\<open>epochs_per_day\<close>. The conversion sets the ticks, labels and limits of the
  secondary axis only: the day ticks are the epoch ticks divided by 16, and the
  plotted curve, the sampled outputs, the markers, the annotations and the epoch
  ticks are what they were before (for any state \<open>s0\<close> the conversion is applied
  to); in the finished figure the curve still holds the model outputs themselves.
\<close>

theorem secondary_unit_value:
  assumes "fst ylim1 \<noteq> snd ylim1"
  shows "\<exists>s y. script ylim1 = Inr s
           \<and> cube_lifetime x 0 960 10 80 = Inr y
           \<and> axis_value (ax2_ylim s) (axis_height ylim1 y) = y / 16
           \<and> epochs_per_day = 16
           \<and> y_ticks_days s = map (\<lambda>t. t / 16) (y_ticks_epochs s)
           \<and> ax2_yticks s = y_ticks_days s
           \<and> ax2_yticklabels s = map py_int (y_ticks_days s)
           \<and> ax1_curve s = zip (x_values s) (y_values s)
           \<and> map Inr (y_values s) = map (\<lambda>x. cube_lifetime x 0 960 10 80) (x_values s)
           \<and> y_values (secondary_axis ylim1 s0) = y_values s0
           \<and> y_values_points (secondary_axis ylim1 s0) = y_values_points s0
           \<and> ax1_curve (secondary_axis ylim1 s0) = ax1_curve s0
           \<and> ax1_markers (secondary_axis ylim1 s0) = ax1_markers s0
           \<and> ax1_annotations (secondary_axis ylim1 s0) = ax1_annotations s0
           \<and> y_ticks_epochs (secondary_axis ylim1 s0) = y_ticks_epochs s0
           \<and> ax1_yticks (secondary_axis ylim1 s0) = ax1_yticks s0"
proof -
  let ?s = "final_state ylim1"
  let ?y = "(960 - 0) / (80 - 10) * x + (0 - (960 - 0) / (80 - 10) * 10)"
  have run: "script ylim1 = Inr ?s" by (rule script_run)
  have y: "cube_lifetime x 0 960 10 80 = Inr ?y" by (simp add: cube_lifetime_def)
  have "ax2_ylim ?s = (fst ylim1 / 16, snd ylim1 / 16)" by (simp add: final_state_def)
  with axis_reading_scaled [OF assms, of ?y]
  have reading: "axis_value (ax2_ylim ?s) (axis_height ylim1 ?y) = ?y / 16" by simp
  have ratio: "epochs_per_day = 16" by (simp add: epochs_per_day_def)
  have days: "y_ticks_days ?s = map (\<lambda>t. t / 16) (y_ticks_epochs ?s)"
    and ticks2: "ax2_yticks ?s = y_ticks_days ?s"
    and labels: "ax2_yticklabels ?s = map py_int (y_ticks_days ?s)"
    and curve: "ax1_curve ?s = zip (x_values ?s) (y_values ?s)"
    by (simp_all add: final_state_def py_int_def)
  show ?thesis
    by (rule exI [of _ ?s], rule exI [of _ ?y])
      (intro conjI run y reading ratio days ticks2 labels curve final_state_curve
        secondary_axis_frame)
qed

theorem secondary_unit_value_witness:
  "fst ((- 48, 1008) :: real \<times> real) \<noteq> snd ((- 48, 1008) :: real \<times> real)
   \<and> (\<exists>s y. script (- 48, 1008) = Inr s
          \<and> cube_lifetime 80 0 960 10 80 = Inr y
          \<and> y = 960
          \<and> axis_value (ax2_ylim s) (axis_height (- 48, 1008) y) = 60)"
proof -
  have ne: "fst ((- 48, 1008) :: real \<times> real) \<noteq> snd ((- 48, 1008) :: real \<times> real)" by simp
  from secondary_unit_value [OF ne, of 80 initial_state]
  obtain s y where run: "script (- 48, 1008) = Inr s"
    and y: "cube_lifetime 80 0 960 10 80 = Inr y"
    and reading: "axis_value (ax2_ylim s) (axis_height (- 48, 1008) y) = y / 16"
    by blast
  from y have "y = 960" by (simp add: cube_lifetime_def)
  with run y reading ne show ?thesis by auto
qed

text \<open>
  C5. The primary-axis ticks are the arithmetic sequence that starts at 0 and
  increases by 80; its last element is at least the maximum of the dense curve's
  outputs. In the run they are \<open>0, 80, ..., 960\<close>, and the maximum is 960.
\<close>

theorem primary_ticks_cover:
  "\<exists>s. script ylim1 = Inr s
     \<and> x_values s = np_linspace 10 80 500
     \<and> map Inr (y_values s) = map (\<lambda>x. cube_lifetime x 0 960 10 80) (x_values s)
     \<and> ax1_yticks s = y_ticks_epochs s
     \<and> y_ticks_epochs s = map (\<lambda>i. 0 + real i * 80) [0..<length (y_ticks_epochs s)]
     \<and> y_ticks_epochs s \<noteq> []
     \<and> hd (y_ticks_epochs s) = 0
     \<and> y_values s \<noteq> []
     \<and> Max (set (y_values s)) \<le> last (y_ticks_epochs s)
     \<and> y_ticks_epochs s = [0, 80, 160, 240, 320, 400, 480, 560, 640, 720, 800, 880, 960]"
proof -
  let ?s = "final_state ylim1"
  have run: "script ylim1 = Inr ?s" by (rule script_run)
  have xs: "x_values ?s = np_linspace 10 80 500" by (simp add: final_state_def)
  have ys: "map Inr (y_values ?s) = map (\<lambda>x. cube_lifetime x 0 960 10 80) (x_values ?s)"
    by (simp add: final_state_def cube_lifetime_def)
  have ticks: "y_ticks_epochs ?s = [0, 80, 160, 240, 320, 400, 480, 560, 640, 720, 800, 880, 960]"
    and same: "ax1_yticks ?s = y_ticks_epochs ?s"
    by (simp_all add: final_state_def)
  have seq: "y_ticks_epochs ?s = map (\<lambda>i. 0 + real i * 80) [0..<length (y_ticks_epochs ?s)]"
    unfolding ticks by (simp add: upt_rec)
  have ne: "y_values ?s \<noteq> []"
    using np_linspace_nonempty [of 500 10 80] by (simp add: final_state_def)
  have "Max (set (y_values ?s)) = 960" using y_values_max by (simp add: final_state_def)
  then have top: "Max (set (y_values ?s)) \<le> last (y_ticks_epochs ?s)"
    unfolding ticks by simp
  have first: "y_ticks_epochs ?s \<noteq> []" "hd (y_ticks_epochs ?s) = 0"
    unfolding ticks by simp_all
  from run xs ys same seq first ne top ticks show ?thesis by blast
qed

text \<open>
  C6. The limits of the secondary axis are the displayed limits of the primary axis,
  each divided by 16: they are computed from \<open>ylim1\<close> alone, whatever the state
  holds (\<open>s0\<close> is any state). So a secondary tick \<open>t / 16\<close> is drawn at the height of
  the primary tick \<open>t\<close>, for every tick of the run, and in particular 60 at the height
  of 960.
\<close>

theorem secondary_limits_scaled:
  assumes "fst ylim1 \<noteq> snd ylim1"
  shows "\<exists>s. script ylim1 = Inr s
         \<and> ax2_ylim s = (fst ylim1 / 16, snd ylim1 / 16)
         \<and> ax2_ylim (secondary_axis ylim1 s0) =
             (fst ylim1 / epochs_per_day, snd ylim1 / epochs_per_day)
         \<and> ax2_yticks s = map (\<lambda>t. t / 16) (ax1_yticks s)
         \<and> axis_height (ax2_ylim s) (t / 16) = axis_height ylim1 t
         \<and> map (axis_height (ax2_ylim s)) (ax2_yticks s) =
             map (axis_height ylim1) (ax1_yticks s)
         \<and> 960 \<in> set (ax1_yticks s)
         \<and> 60 \<in> set (ax2_yticks s)
         \<and> axis_height (ax2_ylim s) 60 = axis_height ylim1 960"
proof -
  let ?s = "final_state ylim1"
  have run: "script ylim1 = Inr ?s" by (rule script_run)
  have lim2: "ax2_ylim ?s = (fst ylim1 / 16, snd ylim1 / 16)" by (simp add: final_state_def)
  have direct: "ax2_ylim (secondary_axis ylim1 s0) =
      (fst ylim1 / epochs_per_day, snd ylim1 / epochs_per_day)"
    by (simp add: secondary_axis_def Let_def)
  have ticks: "ax2_yticks ?s = map (\<lambda>t. t / 16) (ax1_yticks ?s)"
    by (simp add: final_state_def)
  have aligned: "axis_height (ax2_ylim ?s) (u / 16) = axis_height ylim1 u" for u
    unfolding lim2 by (rule axis_height_scaled)
  have all_aligned: "map (axis_height (ax2_ylim ?s)) (ax2_yticks ?s) =
      map (axis_height ylim1) (ax1_yticks ?s)"
    unfolding ticks by (simp add: aligned o_def)
  have mem: "960 \<in> set (ax1_yticks ?s)" "60 \<in> set (ax2_yticks ?s)"
    by (simp_all add: final_state_def)
  from aligned [of 960] have ex: "axis_height (ax2_ylim ?s) 60 = axis_height ylim1 960"
    by simp
  show ?thesis
    by (rule exI [of _ ?s]) (intro conjI run lim2 direct ticks aligned all_aligned mem ex)
qed

theorem secondary_limits_scaled_witness:
  "fst ((- 48, 1008) :: real \<times> real) \<noteq> snd ((- 48, 1008) :: real \<times> real)
   \<and> (\<exists>s. script (- 48, 1008) = Inr s
        \<and> ax2_ylim s = (- 3, 63)
        \<and> axis_height (ax2_ylim s) 60 = axis_height (- 48, 1008) 960
        \<and> axis_height (- 48, 1008) 960 = 21 / 22)"
proof -
  have ne: "fst ((- 48, 1008) :: real \<times> real) \<noteq> snd ((- 48, 1008) :: real \<times> real)" by simp
  from secondary_limits_scaled [OF ne, of initial_state 960]
  obtain s where run: "script (- 48, 1008) = Inr s"
    and lim2: "ax2_ylim s = (fst ((- 48, 1008) :: real \<times> real) / 16, snd ((- 48, 1008) :: real \<times> real) / 16)"
    and ex: "axis_height (ax2_ylim s) 60 = axis_height (- 48, 1008) 960"
    by blast
  from lim2 have "ax2_ylim s = (- 3, 63)" by simp
  moreover have "axis_height (- 48, 1008) 960 = 21 / 22" by (simp add: axis_height_def)
  ultimately show ?thesis using run ex ne by blast
qed

text \<open>
  C8. The tick positions of the input axis are the list written in the script,
  \<open>10, 15, ..., 80\<close>, whatever the state holds when they are set (\<open>s0\<close> is any
  state), and each of the nine challenge inputs is among them.
\<close>

theorem x_ticks_cover_challenge_points:
  "\<exists>s. script ylim1 = Inr s
     \<and> ax1_xticks s = additional_x_ticks s
     \<and> additional_x_ticks s = [10, 15, 20, 25, 30, 35, 40, 45, 50, 55, 60, 65, 70, 75, 80]
     \<and> challenge_points s = [10, 15, 20, 25, 30, 35, 40, 45, 50]
     \<and> set (challenge_points s) \<subseteq> set (ax1_xticks s)
     \<and> ax1_xticks (x_axis_ticks s0) = [10, 15, 20, 25, 30, 35, 40, 45, 50, 55, 60, 65, 70, 75, 80]"
proof -
  let ?s = "final_state ylim1"
  have run: "script ylim1 = Inr ?s" by (rule script_run)
  have same: "ax1_xticks ?s = additional_x_ticks ?s"
    and ticks: "additional_x_ticks ?s = [10, 15, 20, 25, 30, 35, 40, 45, 50, 55, 60, 65, 70, 75, 80]"
    and cps: "challenge_points ?s = [10, 15, 20, 25, 30, 35, 40, 45, 50]"
    and sub: "set (challenge_points ?s) \<subseteq> set (ax1_xticks ?s)"
    by (simp_all add: final_state_def)
  have fixed: "ax1_xticks (x_axis_ticks s0) = [10, 15, 20, 25, 30, 35, 40, 45, 50, 55, 60, 65, 70, 75, 80]"
    by (simp add: x_axis_ticks_def Let_def)
  show ?thesis
    by (rule exI [of _ ?s]) (intro conjI run same ticks cps sub fixed)
qed


section \<open>The lifetime model in Python's arithmetic\<close>

subsection \<open>Binades\<close>

lemma ilog_up_bounds: "1 \<le> x \<Longrightarrow> 2 powi ilog_up x \<le> x \<and> x < 2 powi (ilog_up x + 1)"
proof (induction x rule: ilog_up.induct)
  case (1 x)
  show ?case
  proof (cases "x < 2")
    case True
    with "1.prems" show ?thesis by (simp add: ilog_up.simps)
  next
    case False
    then have "1 \<le> x / 2" by simp
    with "1.IH" False
    have ih: "2 powi ilog_up (x / 2) \<le> x / 2" "x / 2 < 2 powi (ilog_up (x / 2) + 1)"
      by simp_all
    have up: "ilog_up x = 1 + ilog_up (x / 2)" using False by (simp add: ilog_up.simps)
    have "(2::real) powi (1 + ilog_up (x / 2)) = 2 * 2 powi ilog_up (x / 2)"
      by (simp add: power_int_add)
    moreover have "(2::real) powi (1 + ilog_up (x / 2) + 1) = 2 * 2 powi (ilog_up (x / 2) + 1)"
      by (simp add: power_int_add)
    ultimately show ?thesis using ih unfolding up by simp
  qed
qed

lemma ilog_down_bounds:
  "0 < x \<Longrightarrow> x < 1 \<Longrightarrow> 2 powi ilog_down x \<le> x \<and> x < 2 powi (ilog_down x + 1)"
proof (induction x rule: ilog_down.induct)
  case (1 x)
  have down: "ilog_down x = ilog_down (2 * x) - 1"
    using "1.prems" by (simp add: ilog_down.simps)
  show ?case
  proof (cases "2 * x < 1")
    case True
    with "1.IH" "1.prems"
    have ih: "2 powi ilog_down (2 * x) \<le> 2 * x" "2 * x < 2 powi (ilog_down (2 * x) + 1)"
      by simp_all
    have "(2::real) powi (ilog_down (2 * x) - 1) = 2 powi ilog_down (2 * x) / 2"
      by (simp add: power_int_diff)
    moreover have "(2::real) powi (ilog_down (2 * x) - 1 + 1) = 2 powi (ilog_down (2 * x) + 1) / 2"
      by (simp add: power_int_add)
    ultimately show ?thesis using ih unfolding down by simp
  next
    case False
    then have "ilog_down (2 * x) = 0" by (simp add: ilog_down.simps)
    with False "1.prems" show ?thesis unfolding down by simp
  qed
qed

lemma pow2_lt_imp_lt:
  assumes "(2::real) powi a < 2 powi b"
  shows "a < b"
proof (rule ccontr)
  assume "\<not> a < b"
  then have "b \<le> a" by simp
  then have "(2::real) powi b \<le> 2 powi a" by (intro power_int_increasing) simp_all
  with assms show False by simp
qed

lemma binade_unique:
  assumes "(2::real) powi e \<le> a" "a < 2 powi (e + 1)"
    and "2 powi k \<le> a" "a < 2 powi (k + 1)"
  shows "e = k"
proof -
  from assms(1,4) have "(2::real) powi e < 2 powi (k + 1)" by simp
  then have "e < k + 1" by (rule pow2_lt_imp_lt)
  moreover from assms(3,2) have "(2::real) powi k < 2 powi (e + 1)" by simp
  then have "k < e + 1" by (rule pow2_lt_imp_lt)
  ultimately show ?thesis by simp
qed

lemma ilog_bounds:
  assumes "0 < a"
  defines "k \<equiv> (if 1 \<le> a then ilog_up a else ilog_down a)"
  shows "2 powi k \<le> a \<and> a < 2 powi (k + 1)"
proof (cases "1 \<le> a")
  case True
  with ilog_up_bounds [OF True] show ?thesis by (simp add: k_def)
next
  case False
  then have "a < 1" by simp
  from ilog_down_bounds [OF assms(1) this] False show ?thesis by (simp add: k_def)
qed

text \<open>
  \<open>expo\<close> is the exponent of the binade that holds the value, or \<open>-1022\<close> for a value
  below all binades of normal numbers.
\<close>

lemma expo_eqI:
  assumes lo: "2 powi e \<le> \<bar>x\<bar>" and hi: "\<bar>x\<bar> < 2 powi (e + 1)" and e: "- 1022 \<le> e"
  shows "expo x = e"
proof -
  have pos: "0 < \<bar>x\<bar>"
  proof -
    have "(0::real) < 2 powi e" by simp
    with lo show ?thesis by linarith
  qed
  let ?k = "if 1 \<le> \<bar>x\<bar> then ilog_up \<bar>x\<bar> else ilog_down \<bar>x\<bar>"
  from ilog_bounds [OF pos] have "2 powi ?k \<le> \<bar>x\<bar>" "\<bar>x\<bar> < 2 powi (?k + 1)" by simp_all
  with lo hi have "e = ?k" by (intro binade_unique)
  with e show ?thesis by (simp add: expo_def)
qed

lemma expo_upper:
  assumes "x \<noteq> 0"
  shows "\<bar>x\<bar> < 2 powi (expo x + 1)"
proof -
  have pos: "0 < \<bar>x\<bar>" using assms by simp
  let ?k = "if 1 \<le> \<bar>x\<bar> then ilog_up \<bar>x\<bar> else ilog_down \<bar>x\<bar>"
  from ilog_bounds [OF pos] have "\<bar>x\<bar> < 2 powi (?k + 1)" by simp
  also have "(2::real) powi (?k + 1) \<le> 2 powi (expo x + 1)"
    by (intro power_int_increasing) (simp_all add: expo_def)
  finally show ?thesis .
qed

lemma expo_lower:
  assumes "x \<noteq> 0" and "- 1022 < expo x"
  shows "2 powi expo x \<le> \<bar>x\<bar>"
proof -
  have pos: "0 < \<bar>x\<bar>" using assms by simp
  let ?k = "if 1 \<le> \<bar>x\<bar> then ilog_up \<bar>x\<bar> else ilog_down \<bar>x\<bar>"
  from assms(2) have "expo x = ?k" by (simp add: expo_def max_def split: if_splits)
  with ilog_bounds [OF pos] show ?thesis by simp
qed

lemma expo_ge: "- 1022 \<le> expo x"
  by (simp add: expo_def)

lemma expo_minus: "expo (- x) = expo x"
  by (simp add: expo_def)

lemma expo_mono:
  assumes "x \<noteq> 0" and "\<bar>x\<bar> \<le> \<bar>y\<bar>"
  shows "expo x \<le> expo y"
proof (rule ccontr)
  assume "\<not> expo x \<le> expo y"
  then have lt: "expo y < expo x" by simp
  have y0: "y \<noteq> 0" using assms by auto
  from lt expo_ge [of y] have "- 1022 < expo x" by linarith
  from expo_lower [OF assms(1) this] have "2 powi expo x \<le> \<bar>x\<bar>" .
  also note assms(2)
  also note expo_upper [OF y0]
  finally have "expo x < expo y + 1" by (rule pow2_lt_imp_lt)
  with lt show False by simp
qed

subsection \<open>Rounding\<close>

lemma rne_cases: "rne x = \<lfloor>x\<rfloor> \<or> rne x = \<lfloor>x\<rfloor> + 1"
  by (simp add: rne_def Let_def)

lemma rne_of_int [simp]: "rne (of_int n) = n"
  by (simp add: rne_def Let_def)

lemma rne_ge_floor: "\<lfloor>x\<rfloor> \<le> rne x"
  using rne_cases [of x] by auto

lemma rne_le_floor1: "rne x \<le> \<lfloor>x\<rfloor> + 1"
  using rne_cases [of x] by auto

lemma rne_mono:
  assumes "x \<le> y"
  shows "rne x \<le> rne y"
proof (cases "\<lfloor>x\<rfloor> = \<lfloor>y\<rfloor>")
  case True
  from assms have "x - of_int \<lfloor>x\<rfloor> \<le> y - of_int \<lfloor>x\<rfloor>" by simp
  then show ?thesis
    unfolding rne_def Let_def True [symmetric] by auto
next
  case False
  from assms have "\<lfloor>x\<rfloor> \<le> \<lfloor>y\<rfloor>" by (rule floor_mono)
  with False have "\<lfloor>x\<rfloor> + 1 \<le> \<lfloor>y\<rfloor>" by simp
  with rne_le_floor1 [of x] rne_ge_floor [of y] show ?thesis by linarith
qed

lemma rne_minus: "rne (- x) = - rne x"
proof (cases "x = of_int \<lfloor>x\<rfloor>")
  case True
  then obtain n where "x = of_int n" ..
  then have "- x = of_int (- n)" by simp
  then have "rne (- x) = - n" by (simp only: rne_of_int)
  with \<open>x = of_int n\<close> show ?thesis by simp
next
  case False
  then have strict: "of_int \<lfloor>x\<rfloor> < x" "x < of_int \<lfloor>x\<rfloor> + 1" by linarith+
  have fl: "\<lfloor>- x\<rfloor> = - \<lfloor>x\<rfloor> - 1"
  proof (rule floor_unique)
    have e: "real_of_int (- \<lfloor>x\<rfloor> - 1) = - real_of_int \<lfloor>x\<rfloor> - 1" by simp
    show "of_int (- \<lfloor>x\<rfloor> - 1) \<le> - x"
      using strict unfolding e by linarith
    show "- x < of_int (- \<lfloor>x\<rfloor> - 1) + 1"
      using strict unfolding e by linarith
  qed
  define f where "f = \<lfloor>x\<rfloor>"
  define d where "d = x - of_int f"
  have d: "0 < d" "d < 1" using False unfolding d_def f_def by linarith+
  have x: "x = of_int f + d" by (simp add: d_def)
  have dm: "- x - of_int (- f - 1) = 1 - d" by (simp add: x)
  have ev: "even (- f - 1) = (\<not> even f)" by simp
  have "rne x = (if d < 1 / 2 then f else if 1 / 2 < d then f + 1 else if even f then f else f + 1)"
    by (simp add: rne_def Let_def f_def d_def)
  moreover have "rne (- x) = (if 1 - d < 1 / 2 then - f - 1 else if 1 / 2 < 1 - d then - f - 1 + 1
      else if even (- f - 1) then - f - 1 else - f - 1 + 1)"
    unfolding rne_def Let_def fl f_def [symmetric] dm by simp
  ultimately show ?thesis using d unfolding ev by auto
qed

lemma ulp_pos: "0 < ulp x"
  by (simp add: ulp_def)

lemma ulp_minus: "ulp (- x) = ulp x"
  by (simp add: ulp_def expo_minus)

lemma rne_0 [simp]: "rne 0 = 0"
  using rne_of_int [of 0] by simp

lemma fl_0 [simp]: "fl 0 = 0"
  by (simp add: fl_def)

lemma fl_minus: "fl (- x) = - fl x"
  by (simp add: fl_def ulp_minus rne_minus)

lemma fl_nonneg:
  assumes "0 \<le> x"
  shows "0 \<le> fl x"
proof -
  have "0 \<le> x / ulp x" using assms ulp_pos [of x] by simp
  from rne_mono [OF this] have "0 \<le> rne (x / ulp x)"
    using rne_of_int [of 0] by simp
  then show ?thesis using ulp_pos [of x] by (simp add: fl_def)
qed

lemma fl_eval:
  assumes "expo x = e"
  shows "fl x = of_int (rne (x / 2 powi (e - 52))) * 2 powi (e - 52)"
  using assms by (simp add: fl_def ulp_def)

text \<open>
  Rounding never crosses a power of two: a positive value rounds to at most the top of
  its binade and, when normal, to at least its bottom. So rounding is monotone.
\<close>

lemma fl_upper:
  assumes "0 < x"
  shows "fl x \<le> 2 powi (expo x + 1)"
proof -
  have "x < 2 powi (expo x + 1)" using expo_upper [of x] assms by simp
  also have "(2::real) powi (expo x + 1) = 2 ^ 53 * ulp x"
    by (simp add: ulp_def power_int_diff power_int_add)
  finally have "x / ulp x \<le> of_int (2 ^ 53)"
    using ulp_pos [of x] by (simp add: field_simps)
  from rne_mono [OF this] have "rne (x / ulp x) \<le> 2 ^ 53"
    by (simp only: rne_of_int)
  then have "real_of_int (rne (x / ulp x)) \<le> 2 ^ 53"
    by (metis of_int_le_iff of_int_numeral of_int_power)
  then have "fl x \<le> 2 ^ 53 * ulp x"
    using ulp_pos [of x] by (simp add: fl_def)
  then show ?thesis
    by (simp add: ulp_def power_int_diff power_int_add)
qed

lemma fl_lower:
  assumes "0 < x" and "- 1022 < expo x"
  shows "2 powi expo x \<le> fl x"
proof -
  have "2 powi expo x \<le> x" using expo_lower [of x] assms by simp
  moreover have e: "(2::real) powi expo x = 2 ^ 52 * ulp x"
    by (simp add: ulp_def power_int_diff)
  ultimately have "of_int (2 ^ 52) \<le> x / ulp x"
    using ulp_pos [of x] by (simp add: field_simps)
  from rne_mono [OF this] have "2 ^ 52 \<le> rne (x / ulp x)"
    by (simp only: rne_of_int)
  then have "2 ^ 52 \<le> real_of_int (rne (x / ulp x))"
    by (metis of_int_le_iff of_int_numeral of_int_power)
  then have "2 ^ 52 * ulp x \<le> fl x"
    using ulp_pos [of x] by (simp add: fl_def)
  then show ?thesis unfolding e .
qed

lemma fl_mono_pos:
  assumes "0 < x" and "x \<le> y"
  shows "fl x \<le> fl y"
proof (cases "expo x = expo y")
  case True
  then have u: "ulp x = ulp y" by (simp add: ulp_def)
  have "x / ulp y \<le> y / ulp y" using assms ulp_pos [of y] by (simp add: divide_right_mono)
  from rne_mono [OF this] show ?thesis
    using ulp_pos [of y] by (simp add: fl_def u)
next
  case False
  have y: "0 < y" using assms by simp
  have "expo x \<le> expo y" using assms by (intro expo_mono) simp_all
  with False have lt: "expo x < expo y" by simp
  with expo_ge [of x] have "- 1022 < expo y" by linarith
  from fl_lower [OF y this] have "2 powi expo y \<le> fl y" .
  moreover have "(2::real) powi (expo x + 1) \<le> 2 powi expo y"
    using lt by (intro power_int_increasing) simp_all
  moreover note fl_upper [OF assms(1)]
  ultimately show ?thesis by linarith
qed

lemma fl_mono:
  assumes "x \<le> y"
  shows "fl x \<le> fl y"
proof -
  consider "0 < x" | "x \<le> 0" "0 \<le> y" | "y < 0" by linarith
  then show ?thesis
  proof cases
    case 1
    then show ?thesis using assms by (rule fl_mono_pos)
  next
    case 2
    then have "0 \<le> - x" by simp
    from fl_nonneg [OF this] have "fl x \<le> 0" by (simp add: fl_minus)
    with fl_nonneg [OF 2(2)] show ?thesis by simp
  next
    case 3
    then have "0 < - y" "- y \<le> - x" using assms by simp_all
    from fl_mono_pos [OF this] show ?thesis by (simp add: fl_minus)
  qed
qed

text \<open>Rounding a given number: its binade is named, the rest is computed.\<close>

lemma fl_at:
  assumes "2 powi e \<le> \<bar>x\<bar>" and "\<bar>x\<bar> < 2 powi (e + 1)" and "- 1022 \<le> e"
  shows "fl x = of_int (rne (x / 2 powi (e - 52))) * 2 powi (e - 52)"
  using expo_eqI [OF assms] by (rule fl_eval)

lemma max_f64_pos: "0 < max_f64"
  by (simp add: max_f64_def)

lemma round_f64_Finite:
  assumes "\<bar>fl r\<bar> \<le> max_f64"
  shows "round_f64 r = Finite (fl r)"
  using assms by (auto simp: round_f64_def Let_def)

lemma round_f64_value:
  assumes "fl r = v" and "\<bar>v\<bar> \<le> max_f64"
  shows "round_f64 r = Finite v"
  using assms round_f64_Finite [of r] by simp

lemma round_f64_0 [simp]: "round_f64 0 = Finite 0"
  using max_f64_pos by (simp add: round_f64_def)

lemma round_f64_not_NaN [simp]: "round_f64 r \<noteq> NaN"
  by (simp add: round_f64_def Let_def)

lemma round_f64_cases:
  "round_f64 r = Finite (fl r) \<or> round_f64 r = PInf \<or> round_f64 r = NInf"
  by (simp add: round_f64_def Let_def)


subsection \<open>Conversion of ints\<close>

lemma to_float_PyFloat [simp]: "to_float (PyFloat f) = Inr f"
  by (simp add: to_float_def)

lemma to_float_PyInt:
  "to_float (PyInt n) =
     (case round_f64 (of_int n) of Finite v \<Rightarrow> Inr (Finite v) | _ \<Rightarrow> Inl OverflowError)"
  by (simp add: to_float_def)

lemma to_float_int_exact:
  assumes "fl (real_of_int n) = real_of_int n" and "\<bar>real_of_int n\<bar> \<le> max_f64"
  shows "to_float (PyInt n) = Inr (Finite (real_of_int n))"
  using assms by (simp add: to_float_PyInt round_f64_Finite)

lemma small_ints:
  "to_float (PyInt 0) = Inr (Finite 0)"
  "to_float (PyInt 1) = Inr (Finite 1)"
  "to_float (PyInt 6) = Inr (Finite 6)"
  "to_float (PyInt 10) = Inr (Finite 10)"
  "to_float (PyInt 80) = Inr (Finite 80)"
proof -
  show "to_float (PyInt 0) = Inr (Finite 0)" by (simp add: to_float_PyInt)
  have "fl 1 = 1" by (simp add: fl_at [of 0] rne_def Let_def)
  then show "to_float (PyInt 1) = Inr (Finite 1)"
    using to_float_int_exact [of 1] by (simp add: max_f64_def)
  have "fl 6 = 6" by (simp add: fl_at [of 2] rne_def Let_def)
  then show "to_float (PyInt 6) = Inr (Finite 6)"
    using to_float_int_exact [of 6] by (simp add: max_f64_def)
  have "fl 10 = 10" by (simp add: fl_at [of 3] rne_def Let_def)
  then show "to_float (PyInt 10) = Inr (Finite 10)"
    using to_float_int_exact [of 10] by (simp add: max_f64_def)
  have "fl 80 = 80" by (simp add: fl_at [of 6] rne_def Let_def)
  then show "to_float (PyInt 80) = Inr (Finite 80)"
    using to_float_int_exact [of 80] by (simp add: max_f64_def)
qed

text \<open>
  The largest int that converts is one below \<open>int_overflow\<close>: it rounds down to the
  largest double, and \<open>int_overflow\<close> itself is a tie that rounds up to \<open>2 ^ 1024\<close>.
\<close>

lemma fl_largest_int: "fl (2 ^ 1024 - 2 ^ 970 - 1) = (2 ^ 53 - 1) * 2 ^ 971"
  by (simp add: fl_at [of 1023] rne_def Let_def)

lemma fl_overflow_int: "fl (2 ^ 1024 - 2 ^ 970) = 2 ^ 1024"
  by (simp add: fl_at [of 1023] rne_def Let_def)

lemma to_float_int_overflow:
  "(to_float (PyInt n) = Inl OverflowError) = (int_overflow \<le> \<bar>n\<bar>)"
proof -
  have big: "max_f64 < 2 ^ 1024" by (simp add: max_f64_def)
  have T: "real_of_int int_overflow = 2 ^ 1024 - 2 ^ 970" by (simp add: int_overflow_def)
  consider "int_overflow \<le> n" | "n \<le> - int_overflow" | "\<bar>n\<bar> < int_overflow" by linarith
  then show ?thesis
  proof cases
    case 1
    then have "real_of_int int_overflow \<le> real_of_int n" by simp
    from fl_mono [OF this] have "2 ^ 1024 \<le> fl (real_of_int n)"
      unfolding T fl_overflow_int .
    with big have "max_f64 < fl (real_of_int n)" by linarith
    then have "round_f64 (real_of_int n) = PInf" by (simp add: round_f64_def)
    with 1 show ?thesis by (simp add: to_float_PyInt)
  next
    case 2
    then have "real_of_int n \<le> - real_of_int int_overflow" by linarith
    from fl_mono [OF this] have "fl (real_of_int n) \<le> - (2 ^ 1024)"
      unfolding T fl_minus fl_overflow_int .
    with big have lt: "fl (real_of_int n) < - max_f64" by linarith
    with max_f64_pos have "\<not> max_f64 < fl (real_of_int n)" by linarith
    with lt have "round_f64 (real_of_int n) = NInf" by (simp add: round_f64_def)
    with 2 show ?thesis by (simp add: to_float_PyInt)
  next
    case 3
    then have "n \<le> int_overflow - 1" "- (int_overflow - 1) \<le> n" by linarith+
    then have "real_of_int n \<le> 2 ^ 1024 - 2 ^ 970 - 1" "- (2 ^ 1024 - 2 ^ 970 - 1) \<le> real_of_int n"
      unfolding int_overflow_def by (simp_all add: of_int_le_iff [symmetric] del: of_int_le_iff)
    from fl_mono [OF this(1)] fl_mono [OF this(2)]
    have "fl (real_of_int n) \<le> max_f64" "- max_f64 \<le> fl (real_of_int n)"
      unfolding fl_minus fl_largest_int max_f64_def by simp_all
    then have "round_f64 (real_of_int n) = Finite (fl (real_of_int n))"
      by (intro round_f64_Finite) simp
    with 3 show ?thesis by (simp add: to_float_PyInt)
  qed
qed

lemma to_float_int_in_range:
  assumes "\<bar>n\<bar> < int_overflow"
  shows "to_float (PyInt n) = Inr (Finite (fl (real_of_int n)))"
proof -
  from assms have "to_float (PyInt n) \<noteq> Inl OverflowError"
    by (simp add: to_float_int_overflow)
  with round_f64_cases [of "real_of_int n"] show ?thesis
    by (auto simp: to_float_PyInt)
qed

lemma to_float_errors:
  assumes "to_float x = Inl e"
  shows "e = OverflowError"
proof (cases x)
  case (PyInt n)
  with assms round_f64_cases [of "real_of_int n"] show ?thesis
    by (auto simp: to_float_PyInt)
next
  case (PyFloat f)
  with assms show ?thesis by simp
qed

subsection \<open>The default call\<close>

lemma m_hat: "fl (960 / 70) = 7720456504063707 / 2 ^ 49"
  by (simp add: fl_at [of 3] rne_def Let_def)

lemma p_hat: "fl (7720456504063707 / 2 ^ 49 * 10) = 4825285315039817 / 2 ^ 45"
  by (simp add: fl_at [of 7] rne_def Let_def)

lemma b_hat: "fl (0 + - (4825285315039817 / 2 ^ 45)) = - (4825285315039817 / 2 ^ 45)"
  by (simp add: fl_at [of 7] rne_def Let_def)

lemma default_m_fits: "\<bar>default_m\<bar> \<le> max_f64"
  by (simp add: default_m_def max_f64_def)

lemma default_mc_fits: "\<bar>default_mc\<bar> \<le> max_f64" "\<bar>- default_mc\<bar> \<le> max_f64"
  by (simp_all add: default_mc_def max_f64_def)

lemma py_sub_float2:
  "py_sub x (PyFloat g) = and_then (to_float x) (\<lambda>fx. Inr (PyFloat (f64_sub fx g)))"
  by (cases x) simp_all

lemma py_mul_float:
  "py_mul (PyFloat f) x = and_then (to_float x) (\<lambda>fx. Inr (PyFloat (f64_mul f fx)))"
  by (cases x) simp_all

lemma py_add_float: "py_add (PyFloat f) (PyFloat g) = Inr (PyFloat (f64_add f g))"
  by simp

text \<open>
  With the default parameters the call converts \<^verbatim>\<open>x\<close> to a float, multiplies by the
  slope and adds the intercept; nothing but the conversion can raise.
\<close>

lemma default_line_py:
  "cube_lifetime_py x (PyInt 0) (PyInt 960) (PyInt 10) (PyInt 80) =
     and_then (to_float x) (\<lambda>fx.
       Inr (PyFloat (f64_add (f64_mul (Finite default_m) fx) (Finite (- default_mc)))))"
proof -
  have de: "py_sub (PyInt 960) (PyInt 0) = Inr (PyInt 960)"
    and dc: "py_sub (PyInt 80) (PyInt 10) = Inr (PyInt 70)"
    by simp_all
  have m: "py_truediv (PyInt 960) (PyInt 70) = Inr (PyFloat (Finite default_m))"
  proof -
    have "fl (960 / 70) = default_m" unfolding default_m_def by (rule m_hat)
    with default_m_fits have "round_f64 (960 / 70) = Finite default_m"
      by (simp only: round_f64_Finite)
    moreover have "real_of_int 960 / real_of_int 70 = 960 / 70" by simp
    ultimately show ?thesis by (simp only: py_truediv.simps) simp
  qed
  have ten: "to_float (PyInt 10) = Inr (Finite 10)" by (rule small_ints)
  have "fl (default_m * 10) = default_mc"
    unfolding default_m_def default_mc_def by (rule p_hat)
  with default_mc_fits(1) have "round_f64 (default_m * 10) = Finite default_mc"
    by (simp only: round_f64_Finite)
  then have mc: "py_mul (PyFloat (Finite default_m)) (PyInt 10) = Inr (PyFloat (Finite default_mc))"
    by (simp only: py_mul_float ten and_then_Inr f64_mul.simps)
  have zero: "to_float (PyInt 0) = Inr (Finite 0)" by (simp add: to_float_PyInt)
  have "fl (0 + - default_mc) = - default_mc"
    unfolding default_mc_def by (rule b_hat)
  with default_mc_fits(2) have "round_f64 (0 + - default_mc) = Finite (- default_mc)"
    by (simp only: round_f64_Finite)
  then have b: "py_sub (PyInt 0) (PyFloat (Finite default_mc)) = Inr (PyFloat (Finite (- default_mc)))"
    by (simp only: py_sub_float2 zero and_then_Inr f64_sub_def f64_neg.simps f64_add.simps)
  have step: "cube_lifetime_py x (PyInt 0) (PyInt 960) (PyInt 10) (PyInt 80) =
      and_then (py_mul (PyFloat (Finite default_m)) x)
        (\<lambda>mx. py_add mx (PyFloat (Finite (- default_mc))))"
    by (simp only: cube_lifetime_py_def de dc m mc b and_then_Inr)
  show ?thesis
  proof (cases "to_float x")
    case (Inl e)
    then show ?thesis by (simp only: step py_mul_float and_then_Inl)
  next
    case (Inr fx)
    then show ?thesis by (simp only: step py_mul_float and_then_Inr py_add_float)
  qed
qed

lemma default_float_call:
  "cube_lifetime_py (PyFloat f) (PyInt 0) (PyInt 960) (PyInt 10) (PyInt 80) =
     Inr (PyFloat (f64_add (f64_mul (Finite default_m) f) (Finite (- default_mc))))"
  by (simp only: default_line_py to_float_PyFloat and_then_Inr)

lemma default_call_errors:
  "cube_lifetime_py x (PyInt 0) (PyInt 960) (PyInt 10) (PyInt 80) = Inl e \<Longrightarrow> to_float x = Inl e"
  by (cases "to_float x") (simp_all only: default_line_py and_then_Inl and_then_Inr sum.inject sum.distinct)

lemma default_at_10:
  "cube_lifetime_py (PyInt 10) (PyInt 0) (PyInt 960) (PyInt 10) (PyInt 80) = Inr (PyFloat (Finite 0))"
proof -
  have "fl (default_m * 10) = default_mc"
    unfolding default_m_def default_mc_def by (rule p_hat)
  then have q: "round_f64 (default_m * 10) = Finite default_mc"
    using default_mc_fits(1) by (simp only: round_f64_value)
  have s: "round_f64 (default_mc + - default_mc) = Finite 0" by simp
  show ?thesis
    by (simp only: default_line_py small_ints and_then_Inr f64_mul.simps f64_add.simps q s)
qed

lemma default_at_80:
  "cube_lifetime_py (PyInt 80) (PyInt 0) (PyInt 960) (PyInt 10) (PyInt 80) = Inr (PyFloat (Finite 960))"
proof -
  have "fl (default_m * 80) = 4825285315039817 / 2 ^ 42"
    by (simp add: default_m_def fl_at [of 10] rne_def Let_def)
  moreover have "\<bar>4825285315039817 / 2 ^ 42 :: real\<bar> \<le> max_f64" by (simp add: max_f64_def)
  ultimately have q: "round_f64 (default_m * 80) = Finite (4825285315039817 / 2 ^ 42)"
    by (simp only: round_f64_value)
  have "fl (4825285315039817 / 2 ^ 42 + - default_mc) = 960"
    by (simp add: default_mc_def fl_at [of 9] rne_def Let_def)
  moreover have "\<bar>960 :: real\<bar> \<le> max_f64" by (simp add: max_f64_def)
  ultimately have s: "round_f64 (4825285315039817 / 2 ^ 42 + - default_mc) = Finite 960"
    by (simp only: round_f64_value)
  show ?thesis
    by (simp only: default_line_py small_ints and_then_Inr f64_mul.simps f64_add.simps q s)
qed

subsection \<open>Monotonicity of the default call\<close>









subsection \<open>The call as statements\<close>

text \<open>Statements that do not assign to a global name leave the globals as they were.\<close>

lemma exec_globals:
  "list_all (\<lambda>s. \<not> writes_global s) ss \<Longrightarrow> globals (snd (exec ss fr)) = globals fr"
proof (induction ss fr rule: exec.induct)
  case (1 fr)
  show ?case by simp
next
  case (2 n e ss fr)
  then show ?case by (cases "eval_expr fr e") simp_all
next
  case (3 n e ss fr)
  then show ?case by simp
next
  case (4 e ss fr)
  then show ?case by (cases "eval_expr fr e") simp_all
qed

lemma cube_lifetime_call_globals:
  "globals (snd (cube_lifetime_call g x e1 e2 c1 c2)) = g"
proof -
  have "list_all (\<lambda>s. \<not> writes_global s) cube_lifetime_body"
    by (simp add: cube_lifetime_body_def)
  from exec_globals [OF this] show ?thesis by (simp add: cube_lifetime_call_def)
qed

text \<open>The statements of the body compute what \<open>cube_lifetime_py\<close> computes.\<close>

lemma cube_lifetime_call_result:
  "fst (cube_lifetime_call g x e1 e2 c1 c2) = map_sum id Some (cube_lifetime_py x e1 e2 c1 c2)"
proof -
  have "fst (cube_lifetime_call g x e1 e2 c1 c2) =
      (case py_sub e2 e1 of Inl err \<Rightarrow> Inl err | Inr de \<Rightarrow>
       case py_sub c2 c1 of Inl err \<Rightarrow> Inl err | Inr dc \<Rightarrow>
       case py_truediv de dc of Inl err \<Rightarrow> Inl err | Inr m \<Rightarrow>
       case py_mul m c1 of Inl err \<Rightarrow> Inl err | Inr mc \<Rightarrow>
       case py_sub e1 mc of Inl err \<Rightarrow> Inl err | Inr b \<Rightarrow>
       case py_mul m x of Inl err \<Rightarrow> Inl err | Inr mx \<Rightarrow>
       case py_add mx b of Inl err \<Rightarrow> Inl err | Inr y \<Rightarrow> Inr (Some y))"
    by (simp add: cube_lifetime_call_def cube_lifetime_body_def and_then_def split: sum.splits)
  also have "\<dots> = map_sum id Some (cube_lifetime_py x e1 e2 c1 c2)"
    by (simp add: cube_lifetime_py_def and_then_def split: sum.splits)
  finally show ?thesis .
qed

section \<open>Properties of the lifetime model in Python's arithmetic\<close>




text \<open>
  C9, as the specification states it, fails: the call has a call-time error. With
  the default calibration points, \<^verbatim>\<open>cube_lifetime(10**309)\<close> raises
  \<^verbatim>\<open>OverflowError\<close>, because the int does not convert to a float for the
  product \<^verbatim>\<open>m * x\<close>.
\<close>

theorem cube_lifetime_py_overflow:
  "cube_lifetime_py (PyInt (10 ^ 309)) (PyInt 0) (PyInt 960) (PyInt 10) (PyInt 80) = Inl OverflowError"
proof -
  have "int_overflow \<le> \<bar>10 ^ 309 :: int\<bar>" by (simp add: int_overflow_def)
  then have "to_float (PyInt (10 ^ 309)) = Inl OverflowError"
    by (simp only: to_float_int_overflow)
  then show ?thesis by (simp only: default_line_py and_then_Inl)
qed

text \<open>
  C9, amended. With the default calibration points the divisor \<open>c2 - c1\<close> is
  \<open>80 - 10 = 70\<close>, not zero, and the call never raises \<^verbatim>\<open>ZeroDivisionError\<close>,
  whatever the input. It returns a float for every float input (finite, infinite or
  NaN) and for every int input of magnitude below \<open>2 ^ 1024 - 2 ^ 970\<close>; for every
  other int it raises \<^verbatim>\<open>OverflowError\<close>, the only call-time error. The call has
  no side effects: for any parameters and any globals \<open>g\<close>, running the statements of
  the body gives the result of \<open>cube_lifetime_py\<close>, which depends on the arguments
  only, and leaves the globals as they were.
\<close>

theorem cube_lifetime_py_default_total:
  "py_sub (PyInt 80) (PyInt 10) = Inr (PyInt 70)
   \<and> PyInt 70 \<noteq> PyInt 0
   \<and> cube_lifetime_py x (PyInt 0) (PyInt 960) (PyInt 10) (PyInt 80) \<noteq> Inl ZeroDivisionError
   \<and> (\<exists>y. cube_lifetime_py (PyFloat f) (PyInt 0) (PyInt 960) (PyInt 10) (PyInt 80) = Inr (PyFloat y))
   \<and> ((\<exists>y. cube_lifetime_py (PyInt n) (PyInt 0) (PyInt 960) (PyInt 10) (PyInt 80) = Inr (PyFloat y))
        = (\<bar>n\<bar> < 2 ^ 1024 - 2 ^ 970))
   \<and> ((cube_lifetime_py (PyInt n) (PyInt 0) (PyInt 960) (PyInt 10) (PyInt 80) = Inl OverflowError)
        = (2 ^ 1024 - 2 ^ 970 \<le> \<bar>n\<bar>))
   \<and> fst (cube_lifetime_call g x e1 e2 c1 c2) = map_sum id Some (cube_lifetime_py x e1 e2 c1 c2)
   \<and> globals (snd (cube_lifetime_call g x e1 e2 c1 c2)) = g"
proof -
  have divisor: "py_sub (PyInt 80) (PyInt 10) = Inr (PyInt 70)" by simp
  have nonzero: "PyInt 70 \<noteq> PyInt 0" by simp
  have no_zero: "cube_lifetime_py x (PyInt 0) (PyInt 960) (PyInt 10) (PyInt 80) \<noteq> Inl ZeroDivisionError"
  proof
    assume "cube_lifetime_py x (PyInt 0) (PyInt 960) (PyInt 10) (PyInt 80) = Inl ZeroDivisionError"
    then have "to_float x = Inl ZeroDivisionError" by (rule default_call_errors)
    from to_float_errors [OF this] show False by simp
  qed
  have floats: "\<exists>y. cube_lifetime_py (PyFloat f) (PyInt 0) (PyInt 960) (PyInt 10) (PyInt 80) = Inr (PyFloat y)"
    by (simp only: default_float_call) blast
  have over: "(cube_lifetime_py (PyInt n) (PyInt 0) (PyInt 960) (PyInt 10) (PyInt 80) = Inl OverflowError)
      = (2 ^ 1024 - 2 ^ 970 \<le> \<bar>n\<bar>)"
  proof (cases "\<bar>n\<bar> < int_overflow")
    case True
    from to_float_int_in_range [OF this] True show ?thesis
      by (simp add: default_line_py int_overflow_def)
  next
    case False
    then have "to_float (PyInt n) = Inl OverflowError" by (simp add: to_float_int_overflow)
    with False show ?thesis by (simp add: default_line_py int_overflow_def)
  qed
  have ints: "(\<exists>y. cube_lifetime_py (PyInt n) (PyInt 0) (PyInt 960) (PyInt 10) (PyInt 80) = Inr (PyFloat y))
      = (\<bar>n\<bar> < 2 ^ 1024 - 2 ^ 970)"
  proof (cases "\<bar>n\<bar> < int_overflow")
    case True
    from to_float_int_in_range [OF this] True show ?thesis
      by (simp add: default_line_py int_overflow_def)
  next
    case False
    then have "to_float (PyInt n) = Inl OverflowError" by (simp add: to_float_int_overflow)
    with False show ?thesis by (simp add: default_line_py int_overflow_def)
  qed
  show ?thesis
    by (intro conjI divisor nonzero no_zero floats ints over cube_lifetime_call_result
        cube_lifetime_call_globals)
qed

text \<open>
  C10, as stated, fails in the code's arithmetic: with \<^verbatim>\<open>e1 = 0\<close>, \<^verbatim>\<open>e2 = 1\<close>,
  \<^verbatim>\<open>c1 = 1\<close>, \<^verbatim>\<open>c2 = 6\<close> the call at \<^verbatim>\<open>c2\<close> returns 1.0000000000000002
  (\<open>1 + 2 ^ -52\<close>), not \<^verbatim>\<open>e2\<close>.
\<close>

theorem calibration_point_missed:
  "cube_lifetime_py (PyInt 6) (PyInt 0) (PyInt 1) (PyInt 1) (PyInt 6) =
     Inr (PyFloat (Finite (4503599627370497 / 2 ^ 52)))
   \<and> (4503599627370497 / 2 ^ 52 :: real) \<noteq> 1
   \<and> PyInt 1 \<noteq> PyInt 6"
proof -
  let ?m = "3602879701896397 / 2 ^ 54 :: real"
  let ?q = "1351079888211149 / 2 ^ 50 :: real"
  let ?y = "4503599627370497 / 2 ^ 52 :: real"
  have de: "py_sub (PyInt 1) (PyInt 0) = Inr (PyInt 1)"
    and dc: "py_sub (PyInt 6) (PyInt 1) = Inr (PyInt 5)"
    by simp_all
  have "fl (1 / 5) = ?m" by (simp add: fl_at [of "- 3"] rne_def Let_def)
  moreover have fits_m: "\<bar>?m\<bar> \<le> max_f64" "\<bar>- ?m\<bar> \<le> max_f64" by (simp_all add: max_f64_def)
  ultimately have "round_f64 (1 / 5) = Finite ?m" by (simp only: round_f64_value)
  moreover have "real_of_int 1 / real_of_int 5 = 1 / 5" by simp
  ultimately have m: "py_truediv (PyInt 1) (PyInt 5) = Inr (PyFloat (Finite ?m))"
    by (simp only: py_truediv.simps) simp
  have "fl (?m * 1) = ?m" by (simp add: fl_at [of "- 3"] rne_def Let_def)
  with fits_m(1) have "round_f64 (?m * 1) = Finite ?m" by (simp only: round_f64_value)
  then have mc: "py_mul (PyFloat (Finite ?m)) (PyInt 1) = Inr (PyFloat (Finite ?m))"
    by (simp only: py_mul_float small_ints and_then_Inr f64_mul.simps)
  have "fl (0 + - ?m) = - ?m" by (simp add: fl_at [of "- 3"] rne_def Let_def)
  with fits_m(2) have "round_f64 (0 + - ?m) = Finite (- ?m)" by (simp only: round_f64_value)
  then have b: "py_sub (PyInt 0) (PyFloat (Finite ?m)) = Inr (PyFloat (Finite (- ?m)))"
    by (simp only: py_sub_float2 small_ints and_then_Inr f64_sub_def f64_neg.simps f64_add.simps)
  have "fl (?m * 6) = ?q" by (simp add: fl_at [of 0] rne_def Let_def)
  moreover have "\<bar>?q\<bar> \<le> max_f64" by (simp add: max_f64_def)
  ultimately have "round_f64 (?m * 6) = Finite ?q" by (simp only: round_f64_value)
  then have mx: "py_mul (PyFloat (Finite ?m)) (PyInt 6) = Inr (PyFloat (Finite ?q))"
    by (simp only: py_mul_float small_ints and_then_Inr f64_mul.simps)
  have "fl (?q + - ?m) = ?y" by (simp add: fl_at [of 0] rne_def Let_def)
  moreover have "\<bar>?y\<bar> \<le> max_f64" by (simp add: max_f64_def)
  ultimately have "round_f64 (?q + - ?m) = Finite ?y" by (simp only: round_f64_value)
  then have add: "py_add (PyFloat (Finite ?q)) (PyFloat (Finite (- ?m))) = Inr (PyFloat (Finite ?y))"
    by (simp only: py_add_float f64_add.simps)
  have run: "cube_lifetime_py (PyInt 6) (PyInt 0) (PyInt 1) (PyInt 1) (PyInt 6) = Inr (PyFloat (Finite ?y))"
    by (simp only: cube_lifetime_py_def de dc m mc b mx add and_then_Inr)
  have "?y \<noteq> 1" by simp
  moreover have "PyInt 1 \<noteq> PyInt 6" by simp
  ultimately show ?thesis using run by blast
qed

text \<open>
  C10, amended. In exact arithmetic the calibration points are fixed points of the
  constructed line for all calibration parameters with \<open>c1 \<noteq> c2\<close>: the line returns
  \<open>e1\<close> at \<open>c1\<close> and \<open>e2\<close> at \<open>c2\<close>. The code's binary64 evaluation returns them
  exactly for the default parameters, 0 at 10 and 960 at 80; for other parameters it
  can miss them by rounding, as it does for the parameters above, where the exact
  line returns 1 at 6.
\<close>

theorem calibration_points_exact_arithmetic:
  assumes "c1 \<noteq> c2"
  shows "cube_lifetime c1 e1 e2 c1 c2 = Inr e1
       \<and> cube_lifetime c2 e1 e2 c1 c2 = Inr e2
       \<and> cube_lifetime_py (PyInt 10) (PyInt 0) (PyInt 960) (PyInt 10) (PyInt 80)
           = Inr (PyFloat (Finite 0))
       \<and> cube_lifetime_py (PyInt 80) (PyInt 0) (PyInt 960) (PyInt 10) (PyInt 80)
           = Inr (PyFloat (Finite 960))"
proof -
  from assms have nz: "c2 - c1 \<noteq> 0" by simp
  define m where "m = (e2 - e1) / (c2 - c1)"
  have at_c1: "m * c1 + (e1 - m * c1) = e1" by simp
  have "m * (c2 - c1) = e2 - e1" using nz by (simp add: m_def)
  then have at_c2: "m * c2 + (e1 - m * c1) = e2" by (simp add: algebra_simps)
  from nz at_c1 have r1: "cube_lifetime c1 e1 e2 c1 c2 = Inr e1"
    by (simp add: cube_lifetime_def Let_def m_def)
  from nz at_c2 have r2: "cube_lifetime c2 e1 e2 c1 c2 = Inr e2"
    by (simp add: cube_lifetime_def Let_def m_def)
  show ?thesis by (intro conjI r1 r2 default_at_10 default_at_80)
qed

theorem calibration_points_exact_arithmetic_witness:
  "(1::real) \<noteq> 6
   \<and> cube_lifetime 1 0 1 1 6 = Inr 0
   \<and> cube_lifetime 6 0 1 1 6 = Inr 1
   \<and> cube_lifetime_py (PyInt 10) (PyInt 0) (PyInt 960) (PyInt 10) (PyInt 80)
       = Inr (PyFloat (Finite 0))
   \<and> cube_lifetime_py (PyInt 80) (PyInt 0) (PyInt 960) (PyInt 10) (PyInt 80)
       = Inr (PyFloat (Finite 960))"
proof -
  have ne: "(1::real) \<noteq> 6" by simp
  from calibration_points_exact_arithmetic [OF ne, of 0 1] ne show ?thesis by simp
qed

end
